theory Spec2Isabelle
  imports Main "HOL-Library.Char_ord" "HOL-Library.List_Lexorder" "HOL-Library.Product_Lexorder"
begin

section \<open>Python values shared by the components\<close>

text \<open>
  Exceptions are values. Only the classes the sources distinguish in an \<open>except\<close> clause
  get a constructor of their own; everything else that is caught by \<open>except Exception\<close>
  is \<open>OtherError\<close>. The string is what \<open>str(e)\<close> yields.
\<close>

datatype py_exc =
    ValueError string
  | KeyError string
  | AttributeError string
  | IndexError string
  | OtherError string

fun exc_str :: "py_exc \<Rightarrow> string" where
  "exc_str (ValueError m) = m"
| "exc_str (KeyError m) = m"
| "exc_str (AttributeError m) = m"
| "exc_str (IndexError m) = m"
| "exc_str (OtherError m) = m"

text \<open>
  A Python \<open>datetime\<close>: the clock reading (microseconds) and the attached \<open>tzinfo\<close>.
  A datetime with \<open>tzinfo = None\<close> is naive; \<open>datetime.now(timezone.utc)\<close> is aware,
  \<open>datetime.utcnow()\<close> is naive.
\<close>

datatype tzinfo = UTC | Zone string

record datetime =
  wall :: int
  tzinfo :: "tzinfo option"

definition now_utc :: "int \<Rightarrow> datetime" where
  \<comment> \<open>\<open>datetime.now(timezone.utc)\<close> at clock reading \<open>clock\<close>\<close>
  "now_utc clock = \<lparr>wall = clock, tzinfo = Some UTC\<rparr>"

definition utcnow :: "int \<Rightarrow> datetime" where
  \<comment> \<open>\<open>datetime.utcnow()\<close> at clock reading \<open>clock\<close>\<close>
  "utcnow clock = \<lparr>wall = clock, tzinfo = None\<rparr>"

definition is_aware_utc :: "datetime \<Rightarrow> bool" where
  "is_aware_utc d = (tzinfo d = Some UTC)"

section \<open>Data model (infrastructure/database/models.py)\<close>

text \<open>
  \<open>email_delivery_config\<close> is a JSON dictionary with the keys \<open>recipients\<close>, \<open>subject\<close>,
  \<open>cc\<close> and \<open>bcc\<close>. The sources only ever read \<open>recipients\<close> through a truthiness test
  first, so a missing key and an empty list are both the empty list here. For the other
  three keys \<open>None\<close> stands for a missing key.
\<close>

record email_config =
  recipients :: "string list"
  subject :: "string option"
  cc :: "string list option"
  bcc :: "string list option"

record schedule =
  s_id :: string
  s_tenant_id :: string
  s_report_definition_id :: string
  s_name :: string
  s_cron_expression :: string
  s_timezone :: string
  s_is_active :: bool
  s_next_run_at :: "datetime option"
  s_last_run_at :: "datetime option"
  s_email_delivery_config :: "email_config option"
  s_created_by :: string
  s_created_at :: datetime
  s_updated_at :: datetime

section \<open>Cron utilities (utils/cron.py)\<close>

text \<open>
  \<open>croniter\<close> and \<open>pytz\<close> are third-party libraries; the functions of utils/cron.py are
  modelled over a record of what these libraries answer:
  whether \<open>pytz.timezone\<close> knows a name, what \<open>croniter(expr)\<close> raises (if anything), the
  instant \<open>get_next\<close> returns for an expression, a zone and a base instant, and the instant
  \<open>localize\<close> assigns to a naive wall-clock reading.
\<close>

record cron_lib =
  known_tz :: "string \<Rightarrow> bool"
  croniter_init :: "string \<Rightarrow> py_exc option"
  get_next :: "string \<Rightarrow> string \<Rightarrow> int \<Rightarrow> int"
  localize :: "string \<Rightarrow> int \<Rightarrow> int"

definition validate_cron_expression ::
  "cron_lib \<Rightarrow> string \<Rightarrow> py_exc + (bool \<times> string option)" where
  "validate_cron_expression lib cron_expr =
     (case croniter_init lib cron_expr of
        None \<Rightarrow> Inr (True, None)
      | Some (ValueError m) \<Rightarrow> Inr (False, Some (''Invalid cron expression: '' @ m))
      | Some (KeyError m) \<Rightarrow> Inr (False, Some (''Invalid cron expression: '' @ m))
      | Some e \<Rightarrow> Inl e)"

definition calculate_next_run ::
  "cron_lib \<Rightarrow> int \<Rightarrow> string \<Rightarrow> string \<Rightarrow> datetime option \<Rightarrow> py_exc + datetime" where
  "calculate_next_run lib clock cron_expr tz base_time =
     (if \<not> known_tz lib tz then Inl (ValueError (''Invalid timezone: '' @ tz))
      else
        let base = (case base_time of
                      None \<Rightarrow> clock
                    | Some b \<Rightarrow> (if tzinfo b = None then localize lib tz (wall b) else wall b))
        in (case croniter_init lib cron_expr of
              Some e \<Rightarrow> Inl e
            | None \<Rightarrow> Inr \<lparr>wall = get_next lib cron_expr tz base, tzinfo = Some UTC\<rparr>))"

section \<open>Schedule repository (postgres\_schedule\_repository.py)\<close>

text \<open>
  The table is the list of its rows; \<open>id\<close> is the primary key. \<open>update\<close> stamps the entity
  with \<open>datetime.utcnow()\<close> and flushes it, which rewrites the row of that id.
\<close>

type_synonym schedule_table = "schedule list"

definition create :: "schedule_table \<Rightarrow> schedule \<Rightarrow> schedule_table \<times> schedule" where
  "create tbl s = (tbl @ [s], s)"

definition update :: "int \<Rightarrow> schedule_table \<Rightarrow> schedule \<Rightarrow> schedule_table \<times> schedule" where
  "update clock tbl s =
     (let s' = s\<lparr>s_updated_at := utcnow clock\<rparr>
      in (map (\<lambda>r. if s_id r = s_id s' then s' else r) tbl, s'))"

definition find_by_id :: "schedule_table \<Rightarrow> string \<Rightarrow> string \<Rightarrow> schedule option" where
  "find_by_id tbl schedule_id tenant_id =
     find (\<lambda>r. s_id r = schedule_id \<and> s_tenant_id r = tenant_id) tbl"

definition count_by_tenant_id :: "schedule_table \<Rightarrow> string \<Rightarrow> bool option \<Rightarrow> nat" where
  "count_by_tenant_id tbl tenant_id is_active =
     length (filter (\<lambda>r. s_tenant_id r = tenant_id \<and>
                          (case is_active of None \<Rightarrow> True | Some a \<Rightarrow> s_is_active r = a)) tbl)"

text \<open>
  Cursor-paginated listing. The cursor is a string: the base64 text of a JSON object holding
  \<open>created_at\<close> (in ISO format) and \<open>id\<close> of the last row returned. The standard-library
  encoders and decoders are parameters: \<open>encode_cursor\<close> stands for
  \<open>b64encode(json.dumps({created_at: isoformat, id}))\<close>, and \<open>decode_cursor\<close> for the
  decoding steps (\<open>b64decode\<close>, \<open>json.loads\<close>, the two subscripts and \<open>fromisoformat\<close>),
  which yield the pair or raise. The source catches \<open>ValueError\<close>, \<open>KeyError\<close> and
  \<open>JSONDecodeError\<close> (a \<open>ValueError\<close>) and then lists from the start; any other exception
  leaves the function.
\<close>

record cursor_codec =
  encode_cursor :: "int \<times> string \<Rightarrow> string"
  decode_cursor :: "string \<Rightarrow> py_exc + (int \<times> string)"

definition row_key :: "schedule \<Rightarrow> int \<times> string" where
  "row_key r = (wall (s_created_at r), s_id r)"

definition cursor_condition :: "int \<Rightarrow> string \<Rightarrow> schedule \<Rightarrow> bool" where
  \<comment> \<open>\<open>or_(created_at < c, and_(created_at == c, id < cursor_id))\<close>\<close>
  "cursor_condition cursor_created_at cursor_id r =
     (wall (s_created_at r) < cursor_created_at \<or>
      (wall (s_created_at r) = cursor_created_at \<and> s_id r < cursor_id))"

definition order_by_desc :: "schedule list \<Rightarrow> schedule list" where
  \<comment> \<open>\<open>ORDER BY created_at DESC, id DESC\<close>; \<open>id\<close> is the primary key, so no two rows tie\<close>
  "order_by_desc rows = rev (sort_key row_key rows)"

definition py_slice_to :: "'a list \<Rightarrow> int \<Rightarrow> 'a list" where
  \<comment> \<open>\<open>xs[:n]\<close>\<close>
  "py_slice_to xs n =
     (if 0 \<le> n then take (nat n) xs else take (length xs - nat (- n)) xs)"

definition tenant_condition :: "string \<Rightarrow> bool option \<Rightarrow> schedule \<Rightarrow> bool" where
  "tenant_condition tenant_id is_active r =
     (s_tenant_id r = tenant_id \<and>
      (case is_active of None \<Rightarrow> True | Some a \<Rightarrow> s_is_active r = a))"

definition cursor_conditions ::
  "cursor_codec \<Rightarrow> string \<Rightarrow> bool option \<Rightarrow> string option \<Rightarrow> py_exc + (schedule \<Rightarrow> bool)" where
  \<comment> \<open>the list \<open>conditions\<close> as it stands when the query is built\<close>
  "cursor_conditions cdc tenant_id is_active cursor =
     (case cursor of
        None \<Rightarrow> Inr (tenant_condition tenant_id is_active)
      | Some c \<Rightarrow>
          if c = [] then Inr (tenant_condition tenant_id is_active)
          else (case decode_cursor cdc c of
                  Inr (cursor_created_at, cursor_id) \<Rightarrow>
                    Inr (\<lambda>r. tenant_condition tenant_id is_active r \<and>
                              cursor_condition cursor_created_at cursor_id r)
                | Inl (ValueError m) \<Rightarrow> Inr (tenant_condition tenant_id is_active)
                | Inl (KeyError m) \<Rightarrow> Inr (tenant_condition tenant_id is_active)
                | Inl e \<Rightarrow> Inl e))"

definition find_by_tenant_id ::
  "cursor_codec \<Rightarrow> schedule_table \<Rightarrow> string \<Rightarrow> string option \<Rightarrow> int \<Rightarrow> bool option \<Rightarrow>
   py_exc + (schedule list \<times> string option)" where
  "find_by_tenant_id cdc tbl tenant_id cursor limit is_active =
     (let limit = min limit 100
      in case cursor_conditions cdc tenant_id is_active cursor of
           Inl e \<Rightarrow> Inl e
         | Inr conditions \<Rightarrow>
             if limit + 1 < 0 then Inl (OtherError ''LIMIT must not be negative'')
             else
               (let schedules = take (nat (limit + 1)) (order_by_desc (filter conditions tbl))
                in if int (length schedules) > limit
                   then (case py_slice_to schedules limit of
                           [] \<Rightarrow> Inl (IndexError ''list index out of range'')
                         | x # xs \<Rightarrow>
                             Inr (x # xs, Some (encode_cursor cdc (row_key (last (x # xs))))))
                   else Inr (schedules, None)))"

text \<open>
  A client that lists everything: it asks for the first page without a cursor and follows
  \<open>next_cursor\<close> until none is returned, concatenating the pages. The first argument bounds
  the number of requests.
\<close>

fun list_all_pages ::
  "nat \<Rightarrow> cursor_codec \<Rightarrow> schedule_table \<Rightarrow> string \<Rightarrow> string option \<Rightarrow> int \<Rightarrow> bool option \<Rightarrow>
   (py_exc + schedule list) option" where
  "list_all_pages 0 cdc tbl tenant_id cursor limit is_active = None"
| "list_all_pages (Suc n) cdc tbl tenant_id cursor limit is_active =
     (case find_by_tenant_id cdc tbl tenant_id cursor limit is_active of
        Inl e \<Rightarrow> Some (Inl e)
      | Inr (page, None) \<Rightarrow> Some (Inr page)
      | Inr (page, Some c) \<Rightarrow>
          (case list_all_pages n cdc tbl tenant_id (Some c) limit is_active of
             None \<Rightarrow> None
           | Some (Inl e) \<Rightarrow> Some (Inl e)
           | Some (Inr rest) \<Rightarrow> Some (Inr (page @ rest))))"

definition unpaginated :: "schedule_table \<Rightarrow> string \<Rightarrow> bool option \<Rightarrow> schedule list" where
  \<comment> \<open>the same query without cursor and without \<open>LIMIT\<close>\<close>
  "unpaginated tbl tenant_id is_active =
     order_by_desc (filter (tenant_condition tenant_id is_active) tbl)"

section \<open>Schedule service (schedule\_service.py)\<close>

definition pause_schedule ::
  "int \<Rightarrow> schedule_table \<Rightarrow> string \<Rightarrow> string \<Rightarrow> schedule_table \<times> schedule option \<times> string option" where
  "pause_schedule clock tbl schedule_id tenant_id =
     (case find_by_id tbl schedule_id tenant_id of
        None \<Rightarrow> (tbl, None, Some ''Schedule not found'')
      | Some s \<Rightarrow>
          (let (tbl', updated) = update clock tbl (s\<lparr>s_is_active := False\<rparr>)
           in (tbl', Some updated, None)))"

text \<open>
  \<open>SCHEDULE_LIMITS.get(tenant_tier, 10)\<close>: a dictionary lookup with a default.
\<close>

definition SCHEDULE_LIMITS :: "(string \<times> nat) list" where
  "SCHEDULE_LIMITS = [(''standard'', 10), (''premium'', 50), (''enterprise'', 200)]"

definition schedule_limit_for :: "string \<Rightarrow> nat" where
  "schedule_limit_for tenant_tier =
     (case map_of SCHEDULE_LIMITS tenant_tier of Some n \<Rightarrow> n | None \<Rightarrow> 10)"

fun str_nat :: "nat \<Rightarrow> string" where
  "str_nat n =
     (if n < 10 then [''0123456789'' ! n]
      else str_nat (n div 10) @ [''0123456789'' ! (n mod 10)])"

definition quota_message :: "nat \<Rightarrow> string \<Rightarrow> string" where
  "quota_message schedule_limit tenant_tier =
     ''Schedule limit reached ('' @ str_nat schedule_limit @ '' for '' @ tenant_tier @ '' tier)''"

text \<open>
  Attribute access on a \<open>str\<close> object. Inside \<open>create_schedule\<close> the parameter
  \<open>timezone: str\<close> shadows the module-level import \<open>from datetime import timezone\<close>, so the
  expression \<open>timezone.utc\<close> in \<open>datetime.now(timezone.utc)\<close> is an attribute access on the
  zone name. A \<open>str\<close> has no attribute \<open>utc\<close>.
\<close>

definition str_getattr :: "string \<Rightarrow> string \<Rightarrow> py_exc + tzinfo" where
  "str_getattr obj attr = Inl (AttributeError (''str object has no attribute '' @ attr))"

text \<open>
  \<open>create_schedule\<close> returns the pair \<open>(schedule, error_message)\<close> or raises; the table
  after the call is returned next to it. \<open>new_id\<close> is the value of \<open>uuid.uuid4()\<close>.
\<close>

definition create_schedule ::
  "cron_lib \<Rightarrow> int \<Rightarrow> string \<Rightarrow> schedule_table \<Rightarrow> string \<Rightarrow> string \<Rightarrow> string \<Rightarrow> string \<Rightarrow>
   string \<Rightarrow> string \<Rightarrow> email_config option \<Rightarrow> string \<Rightarrow>
   schedule_table \<times> (py_exc + (schedule option \<times> string option))" where
  "create_schedule lib clock new_id tbl tenant_id tenant_tier report_definition_id name
                   cron_expression timezone email_delivery_config created_by =
     (let schedule_limit = schedule_limit_for tenant_tier;
          current_count = count_by_tenant_id tbl tenant_id (Some True)
      in if current_count \<ge> schedule_limit
         then (tbl, Inr (None, Some (quota_message schedule_limit tenant_tier)))
         else
           (case validate_cron_expression lib cron_expression of
              Inl e \<Rightarrow> (tbl, Inl e)
            | Inr (False, error) \<Rightarrow> (tbl, Inr (None, error))
            | Inr (True, error) \<Rightarrow>
                (case calculate_next_run lib clock cron_expression timezone None of
                   Inl (ValueError m) \<Rightarrow> (tbl, Inr (None, Some m))
                 | Inl e \<Rightarrow> (tbl, Inl e)
                 | Inr next_run_at \<Rightarrow>
                     (case str_getattr timezone ''utc'' of
                        Inl e \<Rightarrow> (tbl, Inl e)
                      | Inr tz_utc \<Rightarrow>
                          (let schedule =
                                 \<lparr>s_id = new_id, s_tenant_id = tenant_id,
                                  s_report_definition_id = report_definition_id,
                                  s_name = name, s_cron_expression = cron_expression,
                                  s_timezone = timezone, s_is_active = True,
                                  s_next_run_at = Some next_run_at, s_last_run_at = None,
                                  s_email_delivery_config = email_delivery_config,
                                  s_created_by = created_by,
                                  s_created_at = \<lparr>wall = clock, tzinfo = Some tz_utc\<rparr>,
                                  s_updated_at = \<lparr>wall = clock, tzinfo = Some tz_utc\<rparr>\<rparr>;
                               (tbl', created) = create tbl schedule
                           in (tbl', Inr (Some created, None)))))))"

section \<open>Scheduler loop (scheduler\_loop.py)\<close>

text \<open>
  \<open>_trigger_schedule\<close> handles one due schedule. Its collaborators answer through the
  environment: the burst-protection check (a pair, or an exception), the task queue (a task
  id, or an exception), the clock and the cron libraries. The outcome holds the schedule
  object after the call, the descriptors enqueued, whether \<open>session.add\<close> was reached, the
  exception that escaped (if any) and the messages given to \<open>logger.error\<close>.
\<close>

record descriptor =
  d_tenant_id :: string
  d_schedule_id :: string
  d_report_definition_id :: string
  d_email_delivery_config :: "email_config option"

record trigger_env =
  te_burst_check :: "py_exc + (bool \<times> string option)"
  te_enqueue :: "py_exc + string"
  te_clock :: int
  te_lib :: cron_lib

record trigger_outcome =
  to_schedule :: schedule
  to_enqueued :: "descriptor list"
  to_session_add :: bool
  to_raised :: "py_exc option"
  to_error_log :: "string list"

definition trigger_schedule :: "trigger_env \<Rightarrow> schedule \<Rightarrow> trigger_outcome" where
  "trigger_schedule env s =
     (case te_burst_check env of
        Inr (False, reason) \<Rightarrow>
          \<lparr>to_schedule = s, to_enqueued = [], to_session_add = False, to_raised = None,
           to_error_log = []\<rparr>
      | burst \<Rightarrow>
          (let log1 = (case burst of
                         Inl e \<Rightarrow> [''Burst protection check failed for schedule '' @ s_id s
                                    @ '': '' @ exc_str e]
                       | Inr ok \<Rightarrow> []);
               enq = (case te_enqueue env of
                        Inr task_id \<Rightarrow>
                          [\<lparr>d_tenant_id = s_tenant_id s, d_schedule_id = s_id s,
                            d_report_definition_id = s_report_definition_id s,
                            d_email_delivery_config = s_email_delivery_config s\<rparr>]
                      | Inl e \<Rightarrow> []);
               log2 = (case te_enqueue env of
                         Inr task_id \<Rightarrow> []
                       | Inl e \<Rightarrow> [''Failed to enqueue task for schedule '' @ s_id s
                                    @ '': '' @ exc_str e]);
               s1 = s\<lparr>s_last_run_at := Some (now_utc (te_clock env))\<rparr>
           in (case calculate_next_run (te_lib env) (te_clock env)
                      (s_cron_expression s1) (s_timezone s1) None of
                 Inr t \<Rightarrow>
                   \<lparr>to_schedule = s1\<lparr>s_next_run_at := Some t\<rparr>, to_enqueued = enq,
                    to_session_add = True, to_raised = None, to_error_log = log1 @ log2\<rparr>
               | Inl (ValueError m) \<Rightarrow>
                   \<lparr>to_schedule = s1\<lparr>s_is_active := False\<rparr>, to_enqueued = enq,
                    to_session_add = True, to_raised = None,
                    to_error_log = log1 @ log2 @
                      [''Failed to calculate next run for schedule '' @ s_id s @ '': '' @ m]\<rparr>
               | Inl e \<Rightarrow>
                   \<lparr>to_schedule = s1, to_enqueued = enq, to_session_add = False,
                    to_raised = Some e, to_error_log = log1 @ log2\<rparr>)))"

section \<open>Sample inputs\<close>

text \<open>
  A library that knows the zone \<open>UTC\<close>, accepts the expression \<open>0 9 * * *\<close> and rejects
  every other one; a library in which no zone is known; a library that rejects every
  expression.
\<close>

definition sample_lib :: cron_lib where
  "sample_lib =
     \<lparr>known_tz = (\<lambda>z. z = ''UTC''),
      croniter_init = (\<lambda>c. if c = ''0 9 * * *'' then None else Some (ValueError c)),
      get_next = (\<lambda>c z b. b + 60),
      localize = (\<lambda>z w. w)\<rparr>"

definition no_zone_lib :: cron_lib where
  "no_zone_lib = sample_lib\<lparr>known_tz := (\<lambda>z. False)\<rparr>"

definition rejecting_lib :: cron_lib where
  "rejecting_lib = sample_lib\<lparr>croniter_init := (\<lambda>c. Some (ValueError ''bad expression''))\<rparr>"

definition sample_trigger_env :: "cron_lib \<Rightarrow> trigger_env" where
  "sample_trigger_env lib =
     \<lparr>te_burst_check = Inr (True, None), te_enqueue = Inr ''task-1'', te_clock = 700,
      te_lib = lib\<rparr>"

definition sample_schedule :: schedule where
  "sample_schedule =
     \<lparr>s_id = ''s1'', s_tenant_id = ''t1'', s_report_definition_id = ''r1'',
      s_name = ''daily'', s_cron_expression = ''0 9 * * *'', s_timezone = ''UTC'',
      s_is_active = True, s_next_run_at = Some (now_utc 100), s_last_run_at = None,
      s_email_delivery_config = None, s_created_by = ''u1'',
      s_created_at = now_utc 10, s_updated_at = now_utc 10\<rparr>"

section \<open>Result cache (report\_cache.py)\<close>

text \<open>
  The Redis server is a finite map from keys to byte strings with an absolute expiry, and a
  flag telling whether the server answers at all. \<open>GET\<close> does not see an entry whose expiry
  has passed; \<open>SETEX\<close> refuses a time-to-live that is not positive. Every command raises
  when the server does not answer.
\<close>

record redis_entry =
  re_value :: string
  re_expires_at :: int

record redis =
  entries :: "string \<rightharpoonup> redis_entry"
  reachable :: bool

definition redis_get :: "redis \<Rightarrow> int \<Rightarrow> string \<Rightarrow> py_exc + string option" where
  "redis_get r clock k =
     (if \<not> reachable r then Inl (OtherError ''ConnectionError'')
      else Inr (case entries r k of
                  None \<Rightarrow> None
                | Some e \<Rightarrow> if clock < re_expires_at e then Some (re_value e) else None))"

definition redis_setex :: "redis \<Rightarrow> int \<Rightarrow> string \<Rightarrow> int \<Rightarrow> string \<Rightarrow> py_exc + redis" where
  "redis_setex r clock k ttl v =
     (if \<not> reachable r then Inl (OtherError ''ConnectionError'')
      else if ttl \<le> 0 then Inl (OtherError ''invalid expire time in setex command'')
      else Inr (r\<lparr>entries := (entries r)(k \<mapsto> \<lparr>re_value = v, re_expires_at = clock + ttl\<rparr>)\<rparr>))"

text \<open>
  JSON documents, and the standard-library functions the cache calls on them:
  \<open>json.dumps\<close> (with its \<open>sort_keys\<close> flag), \<open>json.loads\<close>, \<open>hashlib.sha256(...).hexdigest()\<close>
  and \<open>datetime.isoformat\<close>. They are parameters of the model.
\<close>

datatype jvalue =
    JNull
  | JStr string
  | JInt int
  | JBool bool
  | JDict "(string \<times> jvalue) list"

type_synonym pydict = "(string \<times> jvalue) list"

record codec =
  json_dumps :: "bool \<Rightarrow> jvalue \<Rightarrow> string"
  json_loads :: "string \<Rightarrow> py_exc + jvalue"
  sha256_hexdigest :: "string \<Rightarrow> string"
  isoformat :: "datetime \<Rightarrow> string"

definition or_empty :: "pydict option \<Rightarrow> pydict" where
  \<comment> \<open>\<open>d or {}\<close>\<close>
  "or_empty d = (case d of None \<Rightarrow> [] | Some x \<Rightarrow> x)"

fun dict_set :: "pydict \<Rightarrow> string \<Rightarrow> jvalue \<Rightarrow> pydict" where
  "dict_set [] k v = [(k, v)]"
| "dict_set ((k', v') # d) k v = (if k' = k then (k', v) # d else (k', v') # dict_set d k v)"

fun dict_merge :: "pydict \<Rightarrow> pydict \<Rightarrow> pydict" where
  \<comment> \<open>\<open>{**base, **extra}\<close>\<close>
  "dict_merge base [] = base"
| "dict_merge base ((k, v) # extra) = dict_merge (dict_set base k v) extra"

definition DEFAULT_TTL_SECONDS :: int where
  "DEFAULT_TTL_SECONDS = 3600"

definition CACHE_KEY_PREFIX :: string where
  "CACHE_KEY_PREFIX = ''report_cache:''"

definition METADATA_SUFFIX :: string where
  "METADATA_SUFFIX = '':meta''"

definition generate_cache_key :: "codec \<Rightarrow> string \<Rightarrow> pydict option \<Rightarrow> pydict option \<Rightarrow> string" where
  "generate_cache_key cd report_definition_id query_parameters date_range =
     (let cache_data = JDict [(''report_definition_id'', JStr report_definition_id),
                              (''query_parameters'', JDict (or_empty query_parameters)),
                              (''date_range'', JDict (or_empty date_range))];
          cache_json = json_dumps cd True cache_data;
          cache_hash = sha256_hexdigest cd cache_json
      in CACHE_KEY_PREFIX @ cache_hash)"

text \<open>
  \<open>get_cached_report\<close>: \<open>None\<close> is a miss. Everything after the key computation runs inside
  \<open>try ... except Exception: return None\<close>. A metadata document that is not a dictionary
  makes \<open>metadata.get\<close> raise inside that block.
\<close>

definition get_cached_report ::
  "codec \<Rightarrow> redis \<Rightarrow> int \<Rightarrow> string \<Rightarrow> pydict option \<Rightarrow> pydict option \<Rightarrow> (string \<times> pydict) option" where
  "get_cached_report cd r clock report_definition_id query_parameters date_range =
     (let cache_key = generate_cache_key cd report_definition_id query_parameters date_range
      in case redis_get r clock cache_key of
           Inl e \<Rightarrow> None
         | Inr None \<Rightarrow> None
         | Inr (Some pdf_bytes) \<Rightarrow>
             (let meta_key = cache_key @ METADATA_SUFFIX
              in case redis_get r clock meta_key of
                   Inl e \<Rightarrow> None
                 | Inr None \<Rightarrow> Some (pdf_bytes, [])
                 | Inr (Some meta_json) \<Rightarrow>
                     if meta_json = [] then Some (pdf_bytes, [])
                     else (case json_loads cd meta_json of
                             Inl e \<Rightarrow> None
                           | Inr (JDict metadata) \<Rightarrow> Some (pdf_bytes, metadata)
                           | Inr other \<Rightarrow> None)))"

definition effective_ttl :: "int option \<Rightarrow> int" where
  \<comment> \<open>\<open>ttl_seconds or self.DEFAULT_TTL_SECONDS\<close>\<close>
  "effective_ttl ttl_seconds =
     (case ttl_seconds of None \<Rightarrow> DEFAULT_TTL_SECONDS
      | Some t \<Rightarrow> if t = 0 then DEFAULT_TTL_SECONDS else t)"

definition cache_metadata_doc ::
  "codec \<Rightarrow> int \<Rightarrow> string \<Rightarrow> string \<Rightarrow> int \<Rightarrow> pydict option \<Rightarrow> pydict" where
  "cache_metadata_doc cd clock report_definition_id pdf_bytes ttl metadata =
     dict_merge [(''report_definition_id'', JStr report_definition_id),
                 (''cached_at'', JStr (isoformat cd (utcnow clock))),
                 (''size_bytes'', JInt (int (length pdf_bytes))),
                 (''ttl_seconds'', JInt ttl)]
                (or_empty metadata)"

text \<open>
  \<open>cache_report\<close> returns the server state after the call and the boolean of the source.
  The two \<open>SETEX\<close> commands follow each other directly; the model reads the clock once for
  both.
\<close>

definition cache_report ::
  "codec \<Rightarrow> redis \<Rightarrow> int \<Rightarrow> string \<Rightarrow> string \<Rightarrow> pydict option \<Rightarrow> pydict option \<Rightarrow> int option \<Rightarrow>
   pydict option \<Rightarrow> redis \<times> bool" where
  "cache_report cd r clock report_definition_id pdf_bytes query_parameters date_range
                ttl_seconds metadata =
     (let cache_key = generate_cache_key cd report_definition_id query_parameters date_range;
          ttl = effective_ttl ttl_seconds
      in case redis_setex r clock cache_key ttl pdf_bytes of
           Inl e \<Rightarrow> (r, False)
         | Inr r1 \<Rightarrow>
             (let cache_metadata =
                    cache_metadata_doc cd clock report_definition_id pdf_bytes ttl metadata;
                  meta_key = cache_key @ METADATA_SUFFIX
              in case redis_setex r1 clock meta_key ttl (json_dumps cd False (JDict cache_metadata)) of
                   Inl e \<Rightarrow> (r1, False)
                 | Inr r2 \<Rightarrow> (r2, True)))"

text \<open>
  Sample codec for evaluation: the digest of a text is the text itself, a dictionary is
  written as its keys, each followed by its value when that is a string, and the one text
  the parser knows is the metadata document of the sample report.
\<close>

definition sample_meta :: pydict where
  "sample_meta =
     [(''report_definition_id'', JStr ''r1''), (''cached_at'', JStr ''t100''),
      (''size_bytes'', JInt 4), (''ttl_seconds'', JInt 3600),
      (''execution_run_id'', JStr ''e1'')]"

definition sample_dumps :: "jvalue \<Rightarrow> string" where
  "sample_dumps v =
     (case v of
        JDict d \<Rightarrow> concat (map (\<lambda>(k, x). k @ (case x of JStr t \<Rightarrow> t | other \<Rightarrow> [])) d)
      | other \<Rightarrow> ''null'')"

definition sample_codec :: codec where
  "sample_codec =
     \<lparr>json_dumps = (\<lambda>sort_keys. sample_dumps),
      json_loads = (\<lambda>t. if t = sample_dumps (JDict sample_meta) then Inr (JDict sample_meta)
                         else Inl (ValueError ''JSONDecodeError'')),
      sha256_hexdigest = (\<lambda>t. t),
      isoformat = (\<lambda>d. ''t100'')\<rparr>"

definition empty_redis :: redis where
  "empty_redis = \<lparr>entries = Map.empty, reachable = True\<rparr>"

definition bytes_only_redis :: redis where
  \<comment> \<open>the artifact entry of report \<open>r1\<close> without its metadata entry\<close>
  "bytes_only_redis =
     \<lparr>entries = [generate_cache_key sample_codec ''r1'' None None
                    \<mapsto> \<lparr>re_value = ''%PDF'', re_expires_at = 3700\<rparr>],
      reachable = True\<rparr>"

text \<open>Sample table: three rows of tenant \<open>t1\<close>, two of them created at the same instant, and
  one row of another tenant. The sample cursor is the id of the row.\<close>

definition sample_row :: "string \<Rightarrow> string \<Rightarrow> int \<Rightarrow> schedule" where
  "sample_row i t c = sample_schedule\<lparr>s_id := i, s_tenant_id := t, s_created_at := now_utc c\<rparr>"

definition sample_table :: schedule_table where
  "sample_table = [sample_row ''s1'' ''t1'' 10, sample_row ''s4'' ''t2'' 15, sample_row ''s3'' ''t1'' 20, sample_row ''s2'' ''t1'' 20]"

definition sample_cursor_codec :: cursor_codec where
  "sample_cursor_codec =
     \<lparr>encode_cursor = (\<lambda>(c, i). i),
      decode_cursor =
        (\<lambda>c. case map_of [(''s1'', (10, ''s1'')), (''s2'', (20, ''s2'')),
                           (''s3'', (20, ''s3'')), (''s4'', (15, ''s4''))] c of
               Some k \<Rightarrow> Inr k
             | None \<Rightarrow> Inl (ValueError ''Invalid base64-encoded string''))\<rparr>"

section \<open>Execution pipeline (workers/tasks.py)\<close>

text \<open>
  The rows of models.py that the pipeline reads and writes. \<open>ReportDefinition\<close> declares
  the columns \<open>id\<close>, \<open>tenant_id\<close>, \<open>name\<close>, \<open>description\<close>, \<open>query_spec\<close>, \<open>template_ref\<close>,
  \<open>output_format\<close>, \<open>created_by\<close>, \<open>created_at\<close>, \<open>updated_at\<close> and the relationships
  \<open>tenant\<close> and \<open>schedules\<close>; \<open>execution_metadata\<close> is a column of \<open>ExecutionRun\<close> only.
\<close>

record report_definition =
  rd_id :: string
  rd_tenant_id :: string
  rd_name :: string
  rd_query_spec :: pydict
  rd_template_ref :: string
  rd_output_format :: string

record execution_run =
  er_id :: string
  er_tenant_id :: string
  er_schedule_id :: "string option"
  er_report_definition_id :: string
  er_status :: string
  er_started_at :: "datetime option"
  er_completed_at :: "datetime option"
  er_duration_seconds :: "int option"
  er_error_message :: "string option"
  er_execution_metadata :: "pydict option"
  er_created_at :: datetime

record artifact =
  a_id :: string
  a_tenant_id :: string
  a_execution_run_id :: string
  a_blob_path :: string
  a_file_size_bytes :: nat
  a_file_format :: string
  a_signed_url :: "string option"
  a_signed_url_expires_at :: "datetime option"
  a_created_at :: datetime

record delivery_receipt =
  dr_id :: string
  dr_tenant_id :: string
  dr_artifact_id :: string
  dr_channel :: string
  dr_recipient :: string
  dr_status :: string
  dr_sent_at :: "datetime option"
  dr_error_message :: "string option"
  dr_created_at :: datetime

record database =
  report_definitions :: "report_definition list"
  runs :: "execution_run list"
  artifacts :: "artifact list"
  receipts :: "delivery_receipt list"

text \<open>
  The SQLAlchemy session: the committed database, the persistent \<open>ExecutionRun\<close> object
  it tracks (an object it has inserted or loaded, whose attributes the task assigns), and
  the objects handed to \<open>session.add\<close> that are not flushed yet. A commit flushes in one
  transaction: it updates the row of the tracked run (the attributes that were assigned; a
  dictionary mutated in place is not among them) and inserts the pending objects. The
  flush raises when the \<open>UPDATE\<close> matches no row, and when an \<open>INSERT\<close> repeats a primary
  key or the unique \<open>execution_run_id\<close> of an artifact. A commit that raises rolls the
  transaction back: nothing is written, the pending objects are discarded and the tracked
  run is read from the database again. Foreign keys and the declared column lengths are
  outside the model.
\<close>

record session =
  committed :: database
  tracked_run :: "execution_run option"
  pending_artifacts :: "artifact list"
  pending_receipts :: "delivery_receipt list"

definition keys_free :: "string list \<Rightarrow> string list \<Rightarrow> bool" where
  \<comment> \<open>the new keys repeat neither a stored key nor each other\<close>
  "keys_free stored new = (distinct new \<and> (\<forall>k \<in> set new. k \<notin> set stored))"

definition update_run :: "execution_run list \<Rightarrow> execution_run \<Rightarrow> execution_run list" where
  \<comment> \<open>\<open>UPDATE execution_run SET ... WHERE id = :id\<close>\<close>
  "update_run rows r =
     map (\<lambda>x. if er_id x = er_id r
              then r\<lparr>er_execution_metadata := er_execution_metadata x\<rparr> else x) rows"

definition flush :: "session \<Rightarrow> py_exc + database" where
  "flush sess =
     (let db = committed sess
      in if (case tracked_run sess of
               None \<Rightarrow> False
             | Some r \<Rightarrow> er_id r \<notin> set (map er_id (runs db)))
         then Inl (OtherError ''StaleDataError'')
         else if \<not> keys_free (map a_id (artifacts db)) (map a_id (pending_artifacts sess))
                 \<or> \<not> keys_free (map a_execution_run_id (artifacts db))
                                (map a_execution_run_id (pending_artifacts sess))
                 \<or> \<not> keys_free (map dr_id (receipts db)) (map dr_id (pending_receipts sess))
         then Inl (OtherError ''IntegrityError'')
         else Inr (db\<lparr>runs := (case tracked_run sess of
                                  None \<Rightarrow> runs db
                                | Some r \<Rightarrow> update_run (runs db) r),
                       artifacts := artifacts db @ pending_artifacts sess,
                       receipts := receipts db @ pending_receipts sess\<rparr>))"

definition rollback :: "session \<Rightarrow> session" where
  "rollback sess =
     sess\<lparr>tracked_run :=
            (case tracked_run sess of
               None \<Rightarrow> None
             | Some r \<Rightarrow> find (\<lambda>x. er_id x = er_id r) (runs (committed sess))),
          pending_artifacts := [], pending_receipts := []\<rparr>"

definition session_commit :: "py_exc option \<Rightarrow> session \<Rightarrow> session \<times> py_exc option" where
  \<comment> \<open>the first argument is what the connection answers: an exception, or nothing\<close>
  "session_commit outcome sess =
     (case (case outcome of Some e \<Rightarrow> Inl e | None \<Rightarrow> flush sess) of
        Inl e \<Rightarrow> (rollback sess, Some e)
      | Inr db \<Rightarrow>
          (sess\<lparr>committed := db, pending_artifacts := [], pending_receipts := []\<rparr>, None))"

definition add_run_and_commit ::
  "py_exc option \<Rightarrow> database \<Rightarrow> execution_run \<Rightarrow> session \<times> py_exc option" where
  \<comment> \<open>\<open>session.add(execution_run); await session.commit()\<close> on the fresh session of the task:
      the \<open>INSERT\<close> raises when the table already holds a run with that id\<close>
  "add_run_and_commit outcome db r =
     (case outcome of
        Some e \<Rightarrow>
          (\<lparr>committed = db, tracked_run = None, pending_artifacts = [],
            pending_receipts = []\<rparr>, Some e)
      | None \<Rightarrow>
          if er_id r \<in> set (map er_id (runs db))
          then (\<lparr>committed = db, tracked_run = None, pending_artifacts = [],
                 pending_receipts = []\<rparr>, Some (OtherError ''IntegrityError''))
          else (\<lparr>committed = db\<lparr>runs := runs db @ [r]\<rparr>, tracked_run = Some r,
                 pending_artifacts = [], pending_receipts = []\<rparr>, None))"

definition session_get_run :: "session \<Rightarrow> string \<Rightarrow> execution_run option" where
  \<comment> \<open>\<open>session.get(ExecutionRun, id)\<close>: the tracked object if there is one, the row otherwise\<close>
  "session_get_run sess run_id =
     (case tracked_run sess of
        Some r \<Rightarrow> if er_id r = run_id then Some r
                  else find (\<lambda>x. er_id x = run_id) (runs (committed sess))
      | None \<Rightarrow> find (\<lambda>x. er_id x = run_id) (runs (committed sess)))"

text \<open>
  What the collaborators of one task execution answer: the Celery request, the clock at
  each reading, each commit, the cache lookup, the template and PDF renderers, the blob
  store, the e-mail client. The burst-protection calls and the cache write catch their own
  exceptions and touch neither the database nor the session; they are left out.
\<close>

record pipeline_env =
  pe_task_id :: string
  pe_retries :: nat
  pe_max_retries :: nat
  pe_started_clock :: int
  pe_strftime :: string
  pe_commit_run :: "py_exc option"
  pe_cache_get :: "(string \<times> pydict) option"
  pe_render :: "py_exc + string"
  pe_pdf :: "py_exc + string"
  pe_blob_init :: "py_exc option"
  pe_upload :: "py_exc option"
  pe_sas :: "py_exc + (string \<times> datetime)"
  pe_artifact_clock :: int
  pe_acs_connection_string :: string
  pe_email_client_init :: "py_exc option"
  pe_begin_send :: "py_exc + string"
  pe_receipt_clock :: int
  pe_completed_clock :: int
  pe_commit_final :: "py_exc option"
  pe_failed_clock :: int
  pe_commit_failed :: "py_exc option"

record pipeline_result =
  pr_execution_run_id :: "string option"
  pr_status :: string
  pr_artifact_id :: "string option"
  pr_blob_path :: "string option"
  pr_file_size_bytes :: "nat option"
  pr_duration_seconds :: "int option"
  pr_error :: "string option"

definition total_seconds_int :: "datetime \<Rightarrow> datetime \<Rightarrow> int" where
  \<comment> \<open>\<open>int((later - earlier).total_seconds())\<close>, truncating towards zero\<close>
  "total_seconds_int later earlier =
     (if wall earlier \<le> wall later then (wall later - wall earlier) div 1000000
      else - ((wall earlier - wall later) div 1000000))"

subsection \<open>E-mail service (email\_service.py) and the delivery step\<close>

text \<open>
  \<open>EmailService()\<close> builds the client from the connection string when one is configured;
  the constructor of the client can raise. \<open>send_report_email\<close> builds one message
  addressed to the whole recipient list and hands it to the transport once; every failure
  of the transport comes back as \<open>(False, str(e))\<close>. The model returns the messages handed
  to the transport next to the pair.
\<close>

record email_message =
  em_to :: "string list"
  em_subject :: string
  em_cc :: "string list option"
  em_bcc :: "string list option"

definition EmailService_init :: "pipeline_env \<Rightarrow> py_exc + bool" where
  "EmailService_init env =
     (if pe_acs_connection_string env \<noteq> []
      then (case pe_email_client_init env of Some e \<Rightarrow> Inl e | None \<Rightarrow> Inr True)
      else Inr False)"

definition send_report_email ::
  "pipeline_env \<Rightarrow> bool \<Rightarrow> string list \<Rightarrow> string \<Rightarrow> string list option \<Rightarrow> string list option \<Rightarrow>
   (bool \<times> string) \<times> email_message list" where
  "send_report_email env client recipients_arg subject_arg cc_arg bcc_arg =
     (if \<not> client then ((False, ''Email service not configured''), [])
      else
        (let message = \<lparr>em_to = recipients_arg, em_subject = subject_arg,
                        em_cc = (case cc_arg of None \<Rightarrow> None
                                 | Some l \<Rightarrow> if l = [] then None else Some l),
                        em_bcc = (case bcc_arg of None \<Rightarrow> None
                                  | Some l \<Rightarrow> if l = [] then None else Some l)\<rparr>
         in case pe_begin_send env of
              Inr message_id \<Rightarrow> ((True, message_id), [message])
            | Inl e \<Rightarrow> ((False, exc_str e), [message])))"

text \<open>
  \<open>_send_report_email\<close>: one call of \<open>send_report_email\<close> with the whole recipient list, then
  one receipt per entry of the list, all with the status of that one call. It returns (or
  raises, when \<open>EmailService()\<close> does) and leaves the receipts pending in the session. The
  outcome lists, next to the session, the recipient list of every call of
  \<open>send_report_email\<close> and the messages handed to the transport.
\<close>

definition send_report_email_step ::
  "pipeline_env \<Rightarrow> session \<Rightarrow> string \<Rightarrow> artifact \<Rightarrow> string \<Rightarrow> email_config \<Rightarrow>
   py_exc + (session \<times> string list list \<times> email_message list)" where
  "send_report_email_step env sess tenant_id art report_name email_cfg =
     (case EmailService_init env of
        Inl e \<Rightarrow> Inl e
      | Inr client \<Rightarrow>
          (let subject_arg = (case subject email_cfg of
                                Some t \<Rightarrow> t | None \<Rightarrow> ''Report: '' @ report_name);
               ((success, message_id_or_error), sent) =
                  send_report_email env client (recipients email_cfg) subject_arg
                    (cc email_cfg) (bcc email_cfg);
               new_receipts =
                 map (\<lambda>recipient.
                        \<lparr>dr_id = ''receipt_'' @ a_id art @ ''_'' @ take 20 recipient,
                         dr_tenant_id = tenant_id,
                         dr_artifact_id = a_id art,
                         dr_channel = ''email'',
                         dr_recipient = recipient,
                         dr_status = (if success then ''sent'' else ''failed''),
                         dr_sent_at = (if success then Some (now_utc (pe_receipt_clock env))
                                       else None),
                         dr_error_message = (if \<not> success then Some message_id_or_error
                                             else None),
                         dr_created_at = now_utc (pe_receipt_clock env)\<rparr>)
                     (recipients email_cfg)
           in Inr (sess\<lparr>pending_receipts := pending_receipts sess @ new_receipts\<rparr>,
                   [recipients email_cfg], sent)))"

subsection \<open>The task body\<close>

text \<open>
  Attribute access on a \<open>ReportDefinition\<close> object. The class has no attribute
  \<open>execution_metadata\<close>, so the expression \<open>report_def.execution_metadata\<close>, which the task
  evaluates right after it has loaded the definition, raises \<open>AttributeError\<close>.
\<close>

definition report_def_execution_metadata :: "report_definition \<Rightarrow> py_exc + pydict option" where
  "report_def_execution_metadata report_def =
     Inl (AttributeError ''ReportDefinition object has no attribute execution_metadata'')"

definition cache_ttl_of :: "pydict option \<Rightarrow> jvalue option" where
  \<comment> \<open>\<open>md.get("cache_ttl_seconds") if md else None\<close>\<close>
  "cache_ttl_of md =
     (case md of None \<Rightarrow> None | Some d \<Rightarrow> if d = [] then None else map_of d ''cache_ttl_seconds'')"

definition ttl_enabled :: "jvalue option \<Rightarrow> py_exc + bool" where
  \<comment> \<open>\<open>cache_ttl and cache_ttl > 0\<close>\<close>
  "ttl_enabled cache_ttl =
     (case cache_ttl of
        None \<Rightarrow> Inr False
      | Some JNull \<Rightarrow> Inr False
      | Some (JInt t) \<Rightarrow> Inr (t \<noteq> 0 \<and> 0 < t)
      | Some (JBool b) \<Rightarrow> Inr b
      | Some (JStr t) \<Rightarrow> if t = [] then Inr False else Inl (OtherError ''TypeError'')
      | Some (JDict d) \<Rightarrow> if d = [] then Inr False else Inl (OtherError ''TypeError''))"

text \<open>
  The steps of the \<open>try\<close> block from the cache check (2.5) to the final commit (9), for a
  loaded definition and a given \<open>cache_ttl\<close>. The result is the session as it is when the
  block is left, and either the exception that leaves it or the dictionary it returns.
\<close>

definition run_after_lookup ::
  "pipeline_env \<Rightarrow> string \<Rightarrow> email_config option \<Rightarrow> report_definition \<Rightarrow> jvalue option \<Rightarrow>
   session \<Rightarrow> execution_run \<Rightarrow> session \<times> (py_exc + pipeline_result)" where
  "run_after_lookup env tenant_id email_delivery_config report_def cache_ttl sess run =
     (case ttl_enabled cache_ttl of
        Inl e \<Rightarrow> (sess, Inl e)
      | Inr cacheable \<Rightarrow>
     (let cached = (if cacheable then pe_cache_get env else None);
          run1 = (case cached of
                    None \<Rightarrow> run
                  | Some (b, md) \<Rightarrow>
                      run\<lparr>er_execution_metadata :=
                            Some (dict_set
                                   (dict_set (or_empty (er_execution_metadata run))
                                      ''cache_hit'' (JBool True))
                                   ''cached_at''
                                   (case map_of md ''cached_at'' of None \<Rightarrow> JNull | Some v \<Rightarrow> v))\<rparr>);
          sess1 = sess\<lparr>tracked_run := Some run1\<rparr>;
          computed = (case cached of
                        Some (b, md) \<Rightarrow> Inr b
                      | None \<Rightarrow>
                          (case pe_render env of
                             Inl e \<Rightarrow> Inl e
                           | Inr html \<Rightarrow> pe_pdf env))
      in case computed of
           Inl e \<Rightarrow> (sess1, Inl e)
         | Inr pdf_bytes \<Rightarrow>
             (case pe_blob_init env of
                Some e \<Rightarrow> (sess1, Inl e)
              | None \<Rightarrow>
             (case pe_upload env of
                Some e \<Rightarrow> (sess1, Inl e)
              | None \<Rightarrow>
             (case pe_sas env of
                Inl e \<Rightarrow> (sess1, Inl e)
              | Inr (signed_url, signed_url_expires_at) \<Rightarrow>
                 (let blob_path = tenant_id @ ''/'' @ er_id run @ ''/report_'' @ er_id run
                                    @ ''.'' @ rd_output_format report_def;
                      file_size_bytes = length pdf_bytes;
                      art = \<lparr>a_id = ''artifact_'' @ er_id run,
                             a_tenant_id = tenant_id,
                             a_execution_run_id = er_id run,
                             a_blob_path = blob_path,
                             a_file_size_bytes = file_size_bytes,
                             a_file_format = rd_output_format report_def,
                             a_signed_url = Some signed_url,
                             a_signed_url_expires_at = Some signed_url_expires_at,
                             a_created_at = now_utc (pe_artifact_clock env)\<rparr>;
                      sess2 = sess1\<lparr>pending_artifacts := pending_artifacts sess1 @ [art]\<rparr>;
                      delivered =
                        (case email_delivery_config of
                           None \<Rightarrow> Inr sess2
                         | Some email_cfg \<Rightarrow>
                             if recipients email_cfg = [] then Inr sess2
                             else (case send_report_email_step env sess2 tenant_id art
                                          (rd_name report_def) email_cfg of
                                     Inl e \<Rightarrow> Inl e
                                   | Inr (sess', calls, sent) \<Rightarrow> Inr sess'))
                  in case delivered of
                       Inl e \<Rightarrow> (sess2, Inl e)
                     | Inr sess3 \<Rightarrow>
                         (let completed_at = now_utc (pe_completed_clock env);
                              duration = total_seconds_int completed_at
                                           (now_utc (pe_started_clock env));
                              run2 = run1\<lparr>er_status := ''completed'',
                                          er_completed_at := Some completed_at,
                                          er_duration_seconds := Some duration\<rparr>;
                              (sess4, raised) =
                                 session_commit (pe_commit_final env)
                                   (sess3\<lparr>tracked_run := Some run2\<rparr>)
                          in case raised of
                               Some e \<Rightarrow> (sess4, Inl e)
                             | None \<Rightarrow>
                                 (sess4,
                                  Inr \<lparr>pr_execution_run_id = Some (er_id run),
                                       pr_status = ''completed'',
                                       pr_artifact_id = Some (a_id art),
                                       pr_blob_path = Some blob_path,
                                       pr_file_size_bytes = Some file_size_bytes,
                                       pr_duration_seconds = Some duration,
                                       pr_error = None\<rparr>))))))))"

text \<open>
  The \<open>except Exception\<close> handler: it marks the run as failed through the same session and
  commits that session, then asks for a retry or returns the failure dictionary. An
  exception while marking the run is logged and dropped.
\<close>

definition failure_handler ::
  "pipeline_env \<Rightarrow> session \<Rightarrow> string option \<Rightarrow> py_exc \<Rightarrow> database \<times> (py_exc + pipeline_result)" where
  "failure_handler env sess execution_run_id e =
     (let sess' =
            (case execution_run_id of
               None \<Rightarrow> sess
             | Some run_id \<Rightarrow>
                 (case session_get_run sess run_id of
                    None \<Rightarrow> sess
                  | Some r \<Rightarrow>
                      (let completed_at = now_utc (pe_failed_clock env);
                           r' = r\<lparr>er_status := ''failed'',
                                  er_completed_at := Some completed_at,
                                  er_duration_seconds :=
                                    Some (total_seconds_int completed_at
                                            (now_utc (pe_started_clock env))),
                                  er_error_message := Some (take 1000 (exc_str e))\<rparr>
                       in fst (session_commit (pe_commit_failed env)
                                 (sess\<lparr>tracked_run := Some r'\<rparr>)))))
      in (committed sess',
          if pe_retries env < pe_max_retries env then Inl (OtherError ''Retry'')
          else Inr \<lparr>pr_execution_run_id = execution_run_id, pr_status = ''failed'',
                    pr_artifact_id = None, pr_blob_path = None, pr_file_size_bytes = None,
                    pr_duration_seconds = None, pr_error = Some (exc_str e)\<rparr>))"

definition new_run_id :: "pipeline_env \<Rightarrow> string \<Rightarrow> string" where
  "new_run_id env tenant_id = ''exec_'' @ pe_strftime env @ ''_'' @ take 8 tenant_id"

text \<open>
  \<open>_generate_report_async\<close>: the database after the task and what the task returns or
  raises.
\<close>

definition generate_report_async ::
  "pipeline_env \<Rightarrow> database \<Rightarrow> string \<Rightarrow> string option \<Rightarrow> string \<Rightarrow> email_config option \<Rightarrow>
   database \<times> (py_exc + pipeline_result)" where
  "generate_report_async env db tenant_id schedule_id report_definition_id email_delivery_config =
     (let started_at = now_utc (pe_started_clock env);
          run = \<lparr>er_id = new_run_id env tenant_id,
                 er_tenant_id = tenant_id,
                 er_schedule_id = schedule_id,
                 er_report_definition_id = report_definition_id,
                 er_status = ''running'',
                 er_started_at = Some started_at,
                 er_completed_at = None,
                 er_duration_seconds = None,
                 er_error_message = None,
                 er_execution_metadata = Some [(''task_id'', JStr (pe_task_id env))],
                 er_created_at = started_at\<rparr>;
          (sess1, raised) = add_run_and_commit (pe_commit_run env) db run
      in case raised of
           Some e \<Rightarrow> failure_handler env sess1 None e
         | None \<Rightarrow>
             (let (sess2, outcome) =
                    (case find (\<lambda>d. rd_id d = report_definition_id)
                               (report_definitions (committed sess1)) of
                       None \<Rightarrow>
                         (sess1, Inl (ValueError (''Report definition not found: ''
                                                   @ report_definition_id)))
                     | Some report_def \<Rightarrow>
                         (case report_def_execution_metadata report_def of
                            Inl e \<Rightarrow> (sess1, Inl e)
                          | Inr md \<Rightarrow>
                              run_after_lookup env tenant_id email_delivery_config report_def
                                (cache_ttl_of md) sess1 run))
              in case outcome of
                   Inl e \<Rightarrow> failure_handler env sess2 (Some (er_id run)) e
                 | Inr res \<Rightarrow> (committed sess2, Inr res)))"

text \<open>
  The steps 2.5 to 9 of the \<open>try\<close> block together with the \<open>except\<close> handler around them:
  what the task does from the point where the definition is loaded.
\<close>

definition steps_with_handler ::
  "pipeline_env \<Rightarrow> string \<Rightarrow> email_config option \<Rightarrow> report_definition \<Rightarrow> jvalue option \<Rightarrow>
   session \<Rightarrow> execution_run \<Rightarrow> database \<times> (py_exc + pipeline_result)" where
  "steps_with_handler env tenant_id email_delivery_config report_def cache_ttl sess run =
     (let (sess', outcome) =
            run_after_lookup env tenant_id email_delivery_config report_def cache_ttl sess run
      in case outcome of
           Inl e \<Rightarrow> failure_handler env sess' (Some (er_id run)) e
         | Inr res \<Rightarrow> (committed sess', Inr res))"

definition artifacts_of_run :: "database \<Rightarrow> string \<Rightarrow> artifact list" where
  "artifacts_of_run db run_id = filter (\<lambda>a. a_execution_run_id a = run_id) (artifacts db)"

text \<open>Projections of the outcome of the delivery step.\<close>

definition step_session ::
  "py_exc + (session \<times> string list list \<times> email_message list) \<Rightarrow> session option" where
  "step_session r = (case r of Inl e \<Rightarrow> None | Inr (sess, calls, sent) \<Rightarrow> Some sess)"

definition step_calls ::
  "py_exc + (session \<times> string list list \<times> email_message list) \<Rightarrow> string list list" where
  "step_calls r = (case r of Inl e \<Rightarrow> [] | Inr (sess, calls, sent) \<Rightarrow> calls)"

definition step_sent ::
  "py_exc + (session \<times> string list list \<times> email_message list) \<Rightarrow> email_message list" where
  "step_sent r = (case r of Inl e \<Rightarrow> [] | Inr (sess, calls, sent) \<Rightarrow> sent)"

definition transport_ok :: "pipeline_env \<Rightarrow> bool \<Rightarrow> bool" where
  "transport_ok env client = (client \<and> \<not> isl (pe_begin_send env))"

definition transport_error :: "pipeline_env \<Rightarrow> bool \<Rightarrow> string" where
  "transport_error env client =
     (if client then exc_str (projl (pe_begin_send env)) else ''Email service not configured'')"

text \<open>
  Sample task: every collaborator answers, the e-mail client is configured. Variants: the
  transport refuses the message; the constructor of the e-mail client raises.
\<close>

definition sample_env:: pipeline_env where
  "sample_env =
     \<lparr>pe_task_id = ''task-1'', pe_retries = 3, pe_max_retries = 3,
      pe_started_clock = 1000000, pe_strftime = ''20251121_100000'',
      pe_commit_run = None, pe_cache_get = None,
      pe_render = Inr ''<html></html>'', pe_pdf = Inr ''%PDF'',
      pe_blob_init = None, pe_upload = None,
      pe_sas = Inr (''https://blob/report?sig'', now_utc 86401000000),
      pe_artifact_clock = 2000000,
      pe_acs_connection_string = ''endpoint=https://acs'', pe_email_client_init = None,
      pe_begin_send = Inr ''msg-1'', pe_receipt_clock = 3000000,
      pe_completed_clock = 4000000, pe_commit_final = None,
      pe_failed_clock = 5000000, pe_commit_failed = None\<rparr>"

definition sample_definition :: report_definition where
  "sample_definition =
     \<lparr>rd_id = ''r1'', rd_tenant_id = ''tenant-123'', rd_name = ''Sales'',
      rd_query_spec = [], rd_template_ref = ''templates/sales'', rd_output_format = ''pdf''\<rparr>"

definition sample_db :: database where
  "sample_db = \<lparr>report_definitions = [sample_definition], runs = [], artifacts = [],
                receipts = []\<rparr>"

definition two_recipients :: email_config where
  "two_recipients = \<lparr>recipients = [''a@x.com'', ''b@x.com''], subject = None, cc = None,
                     bcc = None\<rparr>"

definition sample_run :: execution_run where
  "sample_run =
     \<lparr>er_id = new_run_id sample_env ''tenant-123'', er_tenant_id = ''tenant-123'',
      er_schedule_id = Some ''s1'', er_report_definition_id = ''r1'', er_status = ''running'',
      er_started_at = Some (now_utc 1000000), er_completed_at = None,
      er_duration_seconds = None, er_error_message = None,
      er_execution_metadata = Some [(''task_id'', JStr ''task-1'')],
      er_created_at = now_utc 1000000\<rparr>"

definition sample_session :: session where
  "sample_session =
     \<lparr>committed = sample_db\<lparr>runs := [sample_run]\<rparr>, tracked_run = Some sample_run,
      pending_artifacts = [], pending_receipts = []\<rparr>"

definition sample_artifact :: artifact where
  "sample_artifact =
     \<lparr>a_id = ''artifact_e1'', a_tenant_id = ''tenant-123'', a_execution_run_id = ''e1'',
      a_blob_path = ''tenant-123/e1/report_e1.pdf'', a_file_size_bytes = 4,
      a_file_format = ''pdf'', a_signed_url = Some ''https://blob/report?sig'',
      a_signed_url_expires_at = Some (now_utc 86401000000), a_created_at = now_utc 2000000\<rparr>"

definition failing_transport_env :: pipeline_env where
  "failing_transport_env = sample_env\<lparr>pe_begin_send := Inl (OtherError ''AzureError: refused'')\<rparr>"






definition unreachable_redis :: redis where
  "unreachable_redis = bytes_only_redis\<lparr>reachable := False\<rparr>"

section \<open>Claims about the repository's timestamps\<close>

text \<open>
  C9. Claimed: every timestamp the repository persists is a timezone-aware UTC instant, in
  particular the \<open>updated_at\<close> that the repository's \<open>update\<close> refreshes. The code stamps
  the row with \<open>datetime.utcnow()\<close>, which carries no \<open>tzinfo\<close>: pausing an existing
  schedule (whose timestamps were all aware) leaves a row whose \<open>updated_at\<close> is naive.
\<close>

theorem update_persists_naive_updated_at:
  "(case pause_schedule 500 [sample_schedule] ''s1'' ''t1'' of
      (tbl', r, err) \<Rightarrow>
        err = None \<and>
        map s_updated_at tbl' = [\<lparr>wall = 500, tzinfo = None\<rparr>] \<and>
        \<not> is_aware_utc (s_updated_at (hd tbl')) \<and>
        is_aware_utc (s_updated_at sample_schedule))"
  by (simp add: pause_schedule_def find_by_id_def update_def utcnow_def now_utc_def
      is_aware_utc_def sample_schedule_def Let_def)

section \<open>Claims about the schedule service\<close>

lemma schedule_limit_for_known:
  "schedule_limit_for ''standard'' = 10"
  "schedule_limit_for ''premium'' = 50"
  "schedule_limit_for ''enterprise'' = 200"
  by (simp_all add: schedule_limit_for_def SCHEDULE_LIMITS_def)

lemma schedule_limit_for_unknown:
  "tier \<notin> {''standard'', ''premium'', ''enterprise''} \<Longrightarrow> schedule_limit_for tier = 10"
  by (simp add: schedule_limit_for_def SCHEDULE_LIMITS_def)

lemma create_schedule_quota_reached:
  "schedule_limit_for tier \<le> count_by_tenant_id tbl tenant (Some True) \<Longrightarrow>
   create_schedule lib clock new_id tbl tenant tier rd name cron tz cfg by_user =
     (tbl, Inr (None, Some (quota_message (schedule_limit_for tier) tier)))"
  by (simp add: create_schedule_def Let_def)

lemma create_schedule_below_quota:
  "count_by_tenant_id tbl tenant (Some True) < schedule_limit_for tier \<Longrightarrow>
   create_schedule lib clock new_id tbl tenant tier rd name cron tz cfg by_user =
     (case validate_cron_expression lib cron of
        Inl e \<Rightarrow> (tbl, Inl e)
      | Inr (False, error) \<Rightarrow> (tbl, Inr (None, error))
      | Inr (True, error) \<Rightarrow>
          (case calculate_next_run lib clock cron tz None of
             Inl (ValueError m) \<Rightarrow> (tbl, Inr (None, Some m))
           | Inl e \<Rightarrow> (tbl, Inl e)
           | Inr next_run_at \<Rightarrow> (tbl, Inl (AttributeError ''str object has no attribute utc''))))"
  by (simp add: create_schedule_def Let_def str_getattr_def
      split: sum.splits prod.splits bool.splits py_exc.splits)

lemma create_schedule_never_inserts:
  "fst (create_schedule lib clock new_id tbl tenant tier rd name cron tz cfg by_user) = tbl"
  by (simp add: create_schedule_def Let_def str_getattr_def
      split: sum.splits prod.splits bool.splits py_exc.splits)

text \<open>
  C2. Claimed: at or above the tier quota \<open>create_schedule\<close> returns the quota error and
  inserts nothing; below the quota, with a valid expression and zone, it persists a schedule
  with \<open>active = true\<close>. The first half holds (\<open>create_schedule_quota_reached\<close>). The
  second does not: for a standard tenant without schedules, the accepted expression
  \<open>0 9 * * *\<close> and the zone \<open>UTC\<close>, the call gets past every check and then raises
  \<open>AttributeError\<close> while building the entity, because \<open>timezone.utc\<close> is evaluated on the
  zone-name parameter; the table stays empty.
\<close>

theorem create_schedule_valid_request_raises:
  "count_by_tenant_id [] ''t1'' (Some True) < schedule_limit_for ''standard'' \<and>
   validate_cron_expression sample_lib ''0 9 * * *'' = Inr (True, None) \<and>
   calculate_next_run sample_lib 1000 ''0 9 * * *'' ''UTC'' None = Inr (now_utc 1060) \<and>
   create_schedule sample_lib 1000 ''uuid-1'' [] ''t1'' ''standard'' ''r1'' ''daily''
       ''0 9 * * *'' ''UTC'' None ''u1''
     = ([], Inl (AttributeError ''str object has no attribute utc''))"
  by (simp add: create_schedule_def Let_def str_getattr_def validate_cron_expression_def
      calculate_next_run_def sample_lib_def count_by_tenant_id_def schedule_limit_for_def
      SCHEDULE_LIMITS_def now_utc_def)

text \<open>
  C10. Claimed: for a tier name outside standard, premium and enterprise the tier is not
  rejected, the quota 10 applies, creation succeeds below 10 active schedules and the quota
  error is returned from 10 on. The tier is not rejected and the quota is 10: from 10
  active schedules on, the call returns the quota error, which names the limit 10 and the
  tier as given, and the table is unchanged. Below 10, a request whose expression and zone
  are accepted creates nothing: the call raises \<open>AttributeError\<close> while building the
  entity, because \<open>timezone.utc\<close> is evaluated on the zone-name parameter, as for the
  known tiers.
\<close>

theorem unknown_tier_valid_request_raises:
  assumes "tier \<notin> {''standard'', ''premium'', ''enterprise''}"
  shows "(10 \<le> count_by_tenant_id tbl tenant (Some True) \<longrightarrow>
            create_schedule lib clock new_id tbl tenant tier rd name cron tz cfg by_user
              = (tbl, Inr (None, Some (''Schedule limit reached (10 for '' @ tier @ '' tier)''))))
       \<and> (count_by_tenant_id tbl tenant (Some True) < 10 \<longrightarrow>
            (\<forall>err next_run_at.
               validate_cron_expression lib cron = Inr (True, err) \<longrightarrow>
               calculate_next_run lib clock cron tz None = Inr next_run_at \<longrightarrow>
               create_schedule lib clock new_id tbl tenant tier rd name cron tz cfg by_user
                 = (tbl, Inl (AttributeError ''str object has no attribute utc''))))"
proof -
  have lim: "schedule_limit_for tier = 10"
    using assms by (rule schedule_limit_for_unknown)
  have "str_nat 10 = ''10''"
    by simp
  then have msg: "quota_message 10 tier = ''Schedule limit reached (10 for '' @ tier @ '' tier)''"
    by (simp add: quota_message_def)
  show ?thesis
  proof (intro conjI impI allI)
    assume "10 \<le> count_by_tenant_id tbl tenant (Some True)"
    then show "create_schedule lib clock new_id tbl tenant tier rd name cron tz cfg by_user
       = (tbl, Inr (None, Some (''Schedule limit reached (10 for '' @ tier @ '' tier)'')))"
      using create_schedule_quota_reached [of tier tbl tenant] lim msg by simp
  next
    fix err next_run_at
    assume below: "count_by_tenant_id tbl tenant (Some True) < 10"
      and cron: "validate_cron_expression lib cron = Inr (True, err)"
      and nxt: "calculate_next_run lib clock cron tz None = Inr next_run_at"
    show "create_schedule lib clock new_id tbl tenant tier rd name cron tz cfg by_user
       = (tbl, Inl (AttributeError ''str object has no attribute utc''))"
      using below lim cron nxt
      by (simp add: create_schedule_below_quota)
  qed
qed

theorem unknown_tier_valid_request_raises_witness:
  "''gold'' \<notin> {''standard'', ''premium'', ''enterprise''} \<and>
   count_by_tenant_id [] ''t1'' (Some True) < 10 \<and>
   validate_cron_expression sample_lib ''0 9 * * *'' = Inr (True, None) \<and>
   calculate_next_run sample_lib 1000 ''0 9 * * *'' ''UTC'' None = Inr (now_utc 1060) \<and>
   create_schedule sample_lib 1000 ''uuid-1'' [] ''t1'' ''gold'' ''r1'' ''daily''
       ''0 9 * * *'' ''UTC'' None ''u1''
     = ([], Inl (AttributeError ''str object has no attribute utc'')) \<and>
   10 \<le> count_by_tenant_id (replicate 10 sample_schedule) ''t1'' (Some True) \<and>
   create_schedule sample_lib 1000 ''uuid-1'' (replicate 10 sample_schedule) ''t1'' ''gold''
       ''r1'' ''daily'' ''0 9 * * *'' ''UTC'' None ''u1''
     = (replicate 10 sample_schedule,
        Inr (None, Some ''Schedule limit reached (10 for gold tier)''))"
proof -
  have t: "''gold'' \<notin> {''standard'', ''premium'', ''enterprise''}"
    by simp
  have f: "10 \<le> count_by_tenant_id (replicate 10 sample_schedule) ''t1'' (Some True)"
    by (simp add: count_by_tenant_id_def sample_schedule_def)
  have q: "create_schedule sample_lib 1000 ''uuid-1'' (replicate 10 sample_schedule) ''t1''
       ''gold'' ''r1'' ''daily'' ''0 9 * * *'' ''UTC'' None ''u1''
     = (replicate 10 sample_schedule,
        Inr (None, Some (''Schedule limit reached (10 for '' @ ''gold'' @ '' tier)'')))"
    using unknown_tier_valid_request_raises [OF t, of "replicate 10 sample_schedule" "''t1''"
        sample_lib 1000 "''uuid-1''" "''r1''" "''daily''" "''0 9 * * *''" "''UTC''" None "''u1''"] f
    by blast
  have c: "count_by_tenant_id [] ''t1'' (Some True) < 10"
    by (simp add: count_by_tenant_id_def)
  have v: "validate_cron_expression sample_lib ''0 9 * * *'' = Inr (True, None)"
    by (simp add: validate_cron_expression_def sample_lib_def)
  have n: "calculate_next_run sample_lib 1000 ''0 9 * * *'' ''UTC'' None = Inr (now_utc 1060)"
    by (simp add: calculate_next_run_def sample_lib_def now_utc_def)
  have r: "create_schedule sample_lib 1000 ''uuid-1'' [] ''t1'' ''gold'' ''r1'' ''daily''
       ''0 9 * * *'' ''UTC'' None ''u1''
     = ([], Inl (AttributeError ''str object has no attribute utc''))"
    using unknown_tier_valid_request_raises [OF t, of "[]" "''t1''" sample_lib 1000
        "''uuid-1''" "''r1''" "''daily''" "''0 9 * * *''" "''UTC''" None "''u1''"] c v n
    by blast
  from t c v n r f q show ?thesis
    by simp
qed

section \<open>Claims about the scheduler loop\<close>

text \<open>
  C8. Claimed: when recomputing the next fire time of a due schedule fails, the loop sets
  \<open>active\<close> to false and records the failure in the schedule metadata. The schedule has no
  metadata column, and the handler touches \<open>is_active\<close> only: an unknown zone and a
  rejected expression leave the same row, which differs from the row before the scan in
  \<open>last_run_at\<close> and \<open>is_active\<close> and nowhere else. The failure text goes to the error log.
\<close>

theorem trigger_failure_not_recorded_counterexample:
  "to_schedule (trigger_schedule (sample_trigger_env no_zone_lib) sample_schedule)
     = sample_schedule\<lparr>s_is_active := False, s_last_run_at := Some (now_utc 700)\<rparr> \<and>
   to_schedule (trigger_schedule (sample_trigger_env rejecting_lib) sample_schedule)
     = sample_schedule\<lparr>s_is_active := False, s_last_run_at := Some (now_utc 700)\<rparr> \<and>
   to_error_log (trigger_schedule (sample_trigger_env no_zone_lib) sample_schedule)
     = [''Failed to calculate next run for schedule s1: Invalid timezone: UTC''] \<and>
   to_error_log (trigger_schedule (sample_trigger_env rejecting_lib) sample_schedule)
     = [''Failed to calculate next run for schedule s1: bad expression'']"
  by (simp add: trigger_schedule_def sample_trigger_env_def calculate_next_run_def
      no_zone_lib_def rejecting_lib_def sample_lib_def sample_schedule_def now_utc_def Let_def)

text \<open>
  C8, as amended: when the burst-protection check does not refuse the schedule and
  recomputing the next fire time raises \<open>ValueError\<close>, the loop sets \<open>last_run_at\<close> to the
  scan's clock reading, sets \<open>is_active\<close> to false, leaves every other column (also
  \<open>next_run_at\<close>) as it was, hands the schedule to the session, raises nothing, and writes
  the failure to the error log as its last entry.
\<close>

theorem trigger_failure_deactivates:
  assumes "\<forall>reason. te_burst_check env \<noteq> Inr (False, reason)"
    and "calculate_next_run (te_lib env) (te_clock env) (s_cron_expression s) (s_timezone s) None
           = Inl (ValueError m)"
  shows "to_schedule (trigger_schedule env s)
           = s\<lparr>s_is_active := False, s_last_run_at := Some (now_utc (te_clock env))\<rparr>
       \<and> to_session_add (trigger_schedule env s)
       \<and> to_raised (trigger_schedule env s) = None
       \<and> last (to_error_log (trigger_schedule env s))
           = ''Failed to calculate next run for schedule '' @ s_id s @ '': '' @ m"
  using assms
  by (auto simp add: trigger_schedule_def Let_def split: sum.splits prod.splits bool.splits)

theorem trigger_failure_deactivates_witness:
  "to_schedule (trigger_schedule (sample_trigger_env no_zone_lib) sample_schedule)
     = sample_schedule\<lparr>s_is_active := False, s_last_run_at := Some (now_utc 700)\<rparr>
   \<and> to_session_add (trigger_schedule (sample_trigger_env no_zone_lib) sample_schedule)
   \<and> to_raised (trigger_schedule (sample_trigger_env no_zone_lib) sample_schedule) = None"
proof -
  have b: "\<forall>reason. te_burst_check (sample_trigger_env no_zone_lib) \<noteq> Inr (False, reason)"
    by (simp add: sample_trigger_env_def)
  have c: "calculate_next_run (te_lib (sample_trigger_env no_zone_lib))
             (te_clock (sample_trigger_env no_zone_lib))
             (s_cron_expression sample_schedule) (s_timezone sample_schedule) None
           = Inl (ValueError ''Invalid timezone: UTC'')"
    by (simp add: calculate_next_run_def sample_trigger_env_def no_zone_lib_def sample_lib_def
        sample_schedule_def)
  from trigger_failure_deactivates [OF b c]
  show ?thesis
    by (simp add: sample_trigger_env_def)
qed

section \<open>Claims about the result cache\<close>

lemma metadata_suffix_nonempty: "METADATA_SUFFIX \<noteq> []"
  by (simp add: METADATA_SUFFIX_def)

lemma get_cached_report_bytes_absent:
  "redis_get r clock (generate_cache_key cd rid qp dr) = Inr None \<Longrightarrow>
   get_cached_report cd r clock rid qp dr = None"
  by (simp add: get_cached_report_def Let_def)

lemma get_cached_report_meta_absent:
  "redis_get r clock (generate_cache_key cd rid qp dr) = Inr (Some b) \<Longrightarrow>
   redis_get r clock (generate_cache_key cd rid qp dr @ METADATA_SUFFIX) = Inr None \<Longrightarrow>
   get_cached_report cd r clock rid qp dr = Some (b, [])"
  by (simp add: get_cached_report_def Let_def)

lemma get_cached_report_both_present:
  "redis_get r clock (generate_cache_key cd rid qp dr) = Inr (Some b) \<Longrightarrow>
   redis_get r clock (generate_cache_key cd rid qp dr @ METADATA_SUFFIX) = Inr (Some m) \<Longrightarrow>
   m \<noteq> [] \<Longrightarrow> json_loads cd m = Inr (JDict md) \<Longrightarrow>
   get_cached_report cd r clock rid qp dr = Some (b, md)"
  by (simp add: get_cached_report_def Let_def)

text \<open>
  C5. Claimed: the cache's get returns a miss whenever the artifact entry or the metadata
  entry is absent, and a hit only when both are present. With the artifact entry alone in
  the store, the get is a hit: it returns the bytes with an empty metadata dictionary.
\<close>

theorem get_cached_report_without_metadata_counterexample:
  "redis_get bytes_only_redis 200 (generate_cache_key sample_codec ''r1'' None None)
     = Inr (Some ''%PDF'') \<and>
   redis_get bytes_only_redis 200
       (generate_cache_key sample_codec ''r1'' None None @ METADATA_SUFFIX) = Inr None \<and>
   get_cached_report sample_codec bytes_only_redis 200 ''r1'' None None = Some (''%PDF'', [])"
  by (simp add: get_cached_report_def redis_get_def bytes_only_redis_def Let_def
      metadata_suffix_nonempty)

text \<open>
  C5, as amended: the get returns a miss whenever the artifact entry is absent, and also
  when the store cannot be read. When the artifact entry is present, the metadata entry
  decides only the metadata of the hit: absent or empty, the hit carries the bytes and an
  empty dictionary; present and parsed as a dictionary, the hit carries the bytes and that
  dictionary. A miss with the artifact entry present happens only if the metadata entry
  is present and does not parse as a dictionary.
\<close>

theorem get_cached_report_hit_iff_bytes_present:
  "(\<not> reachable r \<longrightarrow> get_cached_report cd r clock rid qp dr = None)
   \<and> (\<forall>e. redis_get r clock (generate_cache_key cd rid qp dr) = Inl e
            \<longrightarrow> get_cached_report cd r clock rid qp dr = None)
   \<and> (redis_get r clock (generate_cache_key cd rid qp dr) = Inr None
            \<longrightarrow> get_cached_report cd r clock rid qp dr = None)
   \<and> (\<forall>b. redis_get r clock (generate_cache_key cd rid qp dr) = Inr (Some b) \<longrightarrow>
            (case redis_get r clock (generate_cache_key cd rid qp dr @ METADATA_SUFFIX) of
               Inl e \<Rightarrow> False
             | Inr None \<Rightarrow> get_cached_report cd r clock rid qp dr = Some (b, [])
             | Inr (Some m) \<Rightarrow>
                 get_cached_report cd r clock rid qp dr =
                   (if m = [] then Some (b, [])
                    else case json_loads cd m of
                           Inr (JDict md) \<Rightarrow> Some (b, md)
                         | other \<Rightarrow> None)))"
  by (auto simp add: get_cached_report_def Let_def redis_get_def
      split: option.splits sum.splits jvalue.splits)

theorem get_cached_report_hit_iff_bytes_present_witness:
  "get_cached_report sample_codec bytes_only_redis 200 ''r1'' None None = Some (''%PDF'', []) \<and>
   get_cached_report sample_codec bytes_only_redis 200 ''r2'' None None = None \<and>
   entries unreachable_redis (generate_cache_key sample_codec ''r1'' None None)
     = Some \<lparr>re_value = ''%PDF'', re_expires_at = 3700\<rparr> \<and>
   \<not> reachable unreachable_redis \<and>
   get_cached_report sample_codec unreachable_redis 200 ''r1'' None None = None"
proof -
  have k1: "redis_get bytes_only_redis 200 (generate_cache_key sample_codec ''r1'' None None)
              = Inr (Some ''%PDF'')"
    by (simp add: redis_get_def bytes_only_redis_def)
  have m1: "redis_get bytes_only_redis 200
              (generate_cache_key sample_codec ''r1'' None None @ METADATA_SUFFIX) = Inr None"
    by (simp add: redis_get_def bytes_only_redis_def metadata_suffix_nonempty)
  have k2: "redis_get bytes_only_redis 200 (generate_cache_key sample_codec ''r2'' None None)
              = Inr None"
    by (simp add: redis_get_def bytes_only_redis_def generate_cache_key_def sample_codec_def
        sample_dumps_def or_empty_def CACHE_KEY_PREFIX_def Let_def)
  have a: "get_cached_report sample_codec bytes_only_redis 200 ''r1'' None None
             = Some (''%PDF'', [])"
    using get_cached_report_hit_iff_bytes_present
            [of bytes_only_redis sample_codec 200 "''r1''" None None] k1 m1
    by simp
  have b: "get_cached_report sample_codec bytes_only_redis 200 ''r2'' None None = None"
    using get_cached_report_hit_iff_bytes_present
            [of bytes_only_redis sample_codec 200 "''r2''" None None] k2
    by simp
  have st: "entries unreachable_redis (generate_cache_key sample_codec ''r1'' None None)
     = Some \<lparr>re_value = ''%PDF'', re_expires_at = 3700\<rparr>"
    by (simp add: unreachable_redis_def bytes_only_redis_def)
  have un: "\<not> reachable unreachable_redis"
    by (simp add: unreachable_redis_def)
  have c: "get_cached_report sample_codec unreachable_redis 200 ''r1'' None None = None"
    using get_cached_report_hit_iff_bytes_present
            [of unreachable_redis sample_codec 200 "''r1''" None None] un
    by simp
  from a b st un c show ?thesis
    by simp
qed

text \<open>
  C6. For every report id, query parameters, date range and byte string: when the store
  answers, the effective time-to-live is positive and \<open>json.loads\<close> parses the metadata
  text that \<open>json.dumps\<close> wrote as a dictionary, \<open>cache_report\<close> succeeds, both entries
  carry the same expiry (the clock reading of the put plus the time-to-live), and a
  \<open>get_cached_report\<close> with the same triple at any time before that expiry is a hit that
  returns exactly the stored bytes.
\<close>

theorem cache_put_then_get:
  assumes up: "reachable r"
    and ttl: "0 < effective_ttl ttl_seconds"
    and t1: "clock \<le> clock'"
    and t2: "clock' < clock + effective_ttl ttl_seconds"
    and rt: "\<exists>d. json_loads cd (json_dumps cd False
               (JDict (cache_metadata_doc cd clock rid pdf_bytes (effective_ttl ttl_seconds) metadata)))
             = Inr (JDict d)"
  shows "snd (cache_report cd r clock rid pdf_bytes qp dr ttl_seconds metadata)
       \<and> map_option fst
            (get_cached_report cd
               (fst (cache_report cd r clock rid pdf_bytes qp dr ttl_seconds metadata))
               clock' rid qp dr)
          = Some pdf_bytes
       \<and> map_option re_expires_at
            (entries (fst (cache_report cd r clock rid pdf_bytes qp dr ttl_seconds metadata))
               (generate_cache_key cd rid qp dr))
          = Some (clock + effective_ttl ttl_seconds)
       \<and> map_option re_expires_at
            (entries (fst (cache_report cd r clock rid pdf_bytes qp dr ttl_seconds metadata))
               (generate_cache_key cd rid qp dr @ METADATA_SUFFIX))
          = Some (clock + effective_ttl ttl_seconds)"
proof -
  let ?k = "generate_cache_key cd rid qp dr"
  let ?ttl = "effective_ttl ttl_seconds"
  let ?md = "cache_metadata_doc cd clock rid pdf_bytes ?ttl metadata"
  let ?r2 = "r\<lparr>entries := (entries r)
                (?k \<mapsto> \<lparr>re_value = pdf_bytes, re_expires_at = clock + ?ttl\<rparr>,
                 ?k @ METADATA_SUFFIX \<mapsto>
                   \<lparr>re_value = json_dumps cd False (JDict ?md), re_expires_at = clock + ?ttl\<rparr>)\<rparr>"
  have put: "cache_report cd r clock rid pdf_bytes qp dr ttl_seconds metadata = (?r2, True)"
    using up ttl by (simp add: cache_report_def redis_setex_def Let_def)
  have g1: "redis_get ?r2 clock' ?k = Inr (Some pdf_bytes)"
    using up t2 by (simp add: redis_get_def metadata_suffix_nonempty)
  have g2: "redis_get ?r2 clock' (?k @ METADATA_SUFFIX)
              = Inr (Some (json_dumps cd False (JDict ?md)))"
    using up t2 by (simp add: redis_get_def)
  from rt obtain d where d: "json_loads cd (json_dumps cd False (JDict ?md)) = Inr (JDict d)"
    by blast
  have get: "map_option fst (get_cached_report cd ?r2 clock' rid qp dr) = Some pdf_bytes"
    unfolding get_cached_report_def Let_def g1 g2 using d by simp
  show ?thesis
    unfolding put using get by (simp add: metadata_suffix_nonempty)
qed

theorem cache_put_then_get_witness:
  "reachable empty_redis \<and> 0 < effective_ttl None \<and> (100::int) \<le> 200 \<and>
   200 < 100 + effective_ttl None \<and>
   map_option fst
     (get_cached_report sample_codec
        (fst (cache_report sample_codec empty_redis 100 ''r1'' ''%PDF'' None None None
                (Some [(''execution_run_id'', JStr ''e1'')])))
        200 ''r1'' None None)
     = Some ''%PDF''"
proof -
  have up: "reachable empty_redis"
    by (simp add: empty_redis_def)
  have ttl: "0 < effective_ttl None"
    by (simp add: effective_ttl_def DEFAULT_TTL_SECONDS_def)
  have t1: "(100::int) \<le> 200"
    by simp
  have t2: "200 < 100 + effective_ttl None"
    by (simp add: effective_ttl_def DEFAULT_TTL_SECONDS_def)
  have doc: "cache_metadata_doc sample_codec 100 ''r1'' ''%PDF'' (effective_ttl None)
               (Some [(''execution_run_id'', JStr ''e1'')]) = sample_meta"
    by (simp add: cache_metadata_doc_def sample_meta_def sample_codec_def effective_ttl_def
        DEFAULT_TTL_SECONDS_def or_empty_def)
  have rt: "\<exists>d. json_loads sample_codec (json_dumps sample_codec False
               (JDict (cache_metadata_doc sample_codec 100 ''r1'' ''%PDF'' (effective_ttl None)
                  (Some [(''execution_run_id'', JStr ''e1'')]))))
             = Inr (JDict d)"
    unfolding doc by (simp add: sample_codec_def)
  from cache_put_then_get [OF up ttl t1 t2 rt, of None None] up ttl t2
  show ?thesis
    by simp
qed

section \<open>Claims about cursor pagination\<close>


lemma row_key_less_iff:
  "row_key r < (a, b) \<longleftrightarrow> cursor_condition a b r"
  by (auto simp add: row_key_def cursor_condition_def)

lemma distinct_keys:
  "distinct (map s_id rows) \<Longrightarrow> distinct (map row_key rows)"
  by (induction rows) (auto simp add: row_key_def)

lemma order_by_desc_filter:
  "order_by_desc (filter P rows) = filter P (order_by_desc rows)"
  by (simp add: order_by_desc_def filter_sort flip: rev_filter)

lemma order_by_desc_strict:
  assumes "distinct (map s_id rows)"
  shows "sorted_wrt (\<lambda>a b. row_key b < row_key a) (order_by_desc rows)"
proof -
  have d: "distinct (map row_key (sort_key row_key rows))"
    using distinct_keys [OF assms] by (simp add: distinct_map)
  have s: "sorted (map row_key (sort_key row_key rows))"
    by simp
  from d s have "sorted_wrt (<) (map row_key (sort_key row_key rows))"
    by (simp add: strict_sorted_iff)
  then have "sorted_wrt (\<lambda>a b. row_key a < row_key b) (sort_key row_key rows)"
    by (simp add: sorted_wrt_map)
  then show ?thesis
    by (simp add: order_by_desc_def sorted_wrt_rev)
qed

lemma filter_below_nth:
  "sorted_wrt (\<lambda>a b. f b < f a) xs \<Longrightarrow> j < length xs \<Longrightarrow>
   filter (\<lambda>r. f r < (f (xs ! j) :: 'k :: linorder)) xs = drop (Suc j) xs"
proof (induction xs arbitrary: j)
  case Nil
  then show ?case by simp
next
  case (Cons x xs)
  show ?case
  proof (cases j)
    case 0
    have "\<forall>y\<in>set xs. f y < f x"
      using Cons.prems(1) by simp
    then have "filter (\<lambda>r. f r < f x) xs = xs"
      by (simp add: filter_id_conv)
    with 0 show ?thesis by simp
  next
    case (Suc i)
    with Cons.prems have i: "i < length xs" and sx: "sorted_wrt (\<lambda>a b. f b < f a) xs"
      by simp_all
    have "f (xs ! i) < f x"
      using Cons.prems(1) i by simp
    then have "\<not> f x < f (xs ! i)"
      by simp
    with Suc Cons.IH [OF sx i] show ?thesis
      by simp
  qed
qed


lemma page_step:
  assumes lim: "1 \<le> limit" "limit \<le> 100"
    and q: "order_by_desc (filter conds tbl) = Q"
    and c: "cursor_conditions cdc tenant_id is_active cursor = Inr conds"
  shows "find_by_tenant_id cdc tbl tenant_id cursor limit is_active =
           (if nat limit < length Q
            then Inr (take (nat limit) Q, Some (encode_cursor cdc (row_key (Q ! (nat limit - 1)))))
            else Inr (Q, None))"
proof -
  have m: "min limit 100 = limit" using lim by simp
  show ?thesis
  proof (cases "nat limit < length Q")
    case True
    then have len: "int (length (take (nat (limit + 1)) Q)) > limit"
      using lim by simp
    have sl: "py_slice_to (take (nat (limit + 1)) Q) limit = take (nat limit) Q"
      using lim by (simp add: py_slice_to_def min_def)
    have ne: "take (nat limit) Q \<noteq> []"
      using True lim by auto
    then obtain x xs where xs: "take (nat limit) Q = x # xs"
      by (cases "take (nat limit) Q") auto
    have "last (take (nat limit) Q) = Q ! (nat limit - 1)"
      using True lim ne by (simp add: last_conv_nth)
    with xs have la: "last (x # xs) = Q ! (nat limit - 1)" by simp
    show ?thesis
      unfolding find_by_tenant_id_def Let_def m c
      using True lim len sl xs la q by simp
  next
    case False
    then have len: "\<not> int (length (take (nat (limit + 1)) Q)) > limit"
      using lim by simp
    have tk: "take (nat (limit + 1)) Q = Q"
      using False lim by simp
    show ?thesis
      unfolding find_by_tenant_id_def Let_def m c
      using False lim len tk q by simp
  qed
qed

lemma unpaginated_strict:
  assumes "distinct (map s_id tbl)"
  shows "sorted_wrt (\<lambda>a b. row_key b < row_key a) (unpaginated tbl tenant_id is_active)"
  unfolding unpaginated_def
  by (rule order_by_desc_strict) (simp add: assms distinct_map_filter)

lemma set_unpaginated:
  "set (unpaginated tbl tenant_id is_active) = {r \<in> set tbl. tenant_condition tenant_id is_active r}"
  by (auto simp add: unpaginated_def order_by_desc_def)

lemma query_after_cursor:
  "order_by_desc (filter (\<lambda>r. tenant_condition tenant_id is_active r \<and> cursor_condition a b r) tbl)
     = filter (\<lambda>r. row_key r < (a, b)) (unpaginated tbl tenant_id is_active)"
proof -
  have "filter (\<lambda>r. tenant_condition tenant_id is_active r \<and> cursor_condition a b r) tbl
          = filter (\<lambda>r. row_key r < (a, b)) (filter (tenant_condition tenant_id is_active) tbl)"
    by (simp add: row_key_less_iff)
  then show ?thesis
    by (simp only: unpaginated_def order_by_desc_filter)
qed

lemma pages_from:
  assumes dist: "distinct (map s_id tbl)"
    and lim: "1 \<le> limit" "limit \<le> 100"
    and codec: "\<forall>r\<in>set tbl. decode_cursor cdc (encode_cursor cdc (row_key r)) = Inr (row_key r)
                  \<and> encode_cursor cdc (row_key r) \<noteq> []"
  shows "length (unpaginated tbl tenant_id is_active) - j < fuel \<Longrightarrow>
         j \<le> length (unpaginated tbl tenant_id is_active) \<Longrightarrow>
         (j = 0 \<and> cursor = None) \<or>
         (0 < j \<and> cursor = Some (encode_cursor cdc
                     (row_key (unpaginated tbl tenant_id is_active ! (j - 1))))) \<Longrightarrow>
         list_all_pages fuel cdc tbl tenant_id cursor limit is_active
           = Some (Inr (drop j (unpaginated tbl tenant_id is_active)))"
proof (induction fuel arbitrary: j cursor)
  case 0
  then show ?case by simp
next
  case (Suc n)
  let ?L = "unpaginated tbl tenant_id is_active"
  have strict: "sorted_wrt (\<lambda>a b. row_key b < row_key a) ?L"
    using dist by (rule unpaginated_strict)
  have "\<exists>conds. cursor_conditions cdc tenant_id is_active cursor = Inr conds
              \<and> order_by_desc (filter conds tbl) = drop j ?L"
  proof (cases "j = 0")
    case True
    with Suc.prems(3) have "cursor = None" by simp
    with True show ?thesis by (simp add: cursor_conditions_def unpaginated_def)
  next
    case False
    with Suc.prems(3) have cur: "cursor = Some (encode_cursor cdc (row_key (?L ! (j - 1))))"
      by simp
    from False Suc.prems(2) have j1: "j - 1 < length ?L" by simp
    then have "?L ! (j - 1) \<in> set ?L" by simp
    then have mem: "?L ! (j - 1) \<in> set tbl" by (simp add: set_unpaginated)
    obtain a b where ab: "row_key (?L ! (j - 1)) = (a, b)"
      by (cases "row_key (?L ! (j - 1))") auto
    from codec mem ab
    have dec: "decode_cursor cdc (encode_cursor cdc (a, b)) = Inr (a, b)"
      and ne: "encode_cursor cdc (a, b) \<noteq> []"
      by auto
    have c: "cursor_conditions cdc tenant_id is_active cursor
               = Inr (\<lambda>r. tenant_condition tenant_id is_active r \<and> cursor_condition a b r)"
      unfolding cur ab using dec ne by (simp add: cursor_conditions_def)
    have "order_by_desc (filter (\<lambda>r. tenant_condition tenant_id is_active r
                                      \<and> cursor_condition a b r) tbl)
            = filter (\<lambda>r. row_key r < (a, b)) ?L"
      by (rule query_after_cursor)
    also have "\<dots> = drop (Suc (j - 1)) ?L"
      using filter_below_nth [OF strict j1] ab by simp
    finally show ?thesis using False c by simp
  qed
  then obtain conds where c: "cursor_conditions cdc tenant_id is_active cursor = Inr conds"
    and q: "order_by_desc (filter conds tbl) = drop j ?L"
    by blast
  have step: "find_by_tenant_id cdc tbl tenant_id cursor limit is_active =
           (if nat limit < length (drop j ?L)
            then Inr (take (nat limit) (drop j ?L),
                      Some (encode_cursor cdc (row_key (drop j ?L ! (nat limit - 1)))))
            else Inr (drop j ?L, None))"
    by (rule page_step [OF lim q c])
  show ?case
  proof (cases "nat limit < length (drop j ?L)")
    case False
    with step show ?thesis by simp
  next
    case True
    let ?j' = "j + nat limit"
    from True have j': "?j' < length ?L" by simp
    have nth: "drop j ?L ! (nat limit - 1) = ?L ! (?j' - 1)"
      using True lim by (simp add: nat_diff_distrib')
    have fuel: "length ?L - ?j' < n"
      using Suc.prems(1) j' lim by linarith
    have pos: "0 < ?j'" using lim by simp
    have rec: "list_all_pages n cdc tbl tenant_id
                 (Some (encode_cursor cdc (row_key (?L ! (?j' - 1))))) limit is_active
               = Some (Inr (drop ?j' ?L))"
      using Suc.IH [OF fuel, of "Some (encode_cursor cdc (row_key (?L ! (?j' - 1))))"] j' pos
      by simp
    have "take (nat limit) (drop j ?L) @ drop ?j' ?L = drop j ?L"
      by (metis add.commute append_take_drop_id drop_drop)
    with step True nth rec show ?thesis by simp
  qed
qed

text \<open>
  C3. For every tenant and every table whose ids are distinct (\<open>id\<close> is the primary key),
  every limit from 1 to 100 and every cursor encoding that decodes what it encoded to a
  non-empty string: following \<open>next_cursor\<close> from the first page until none is returned
  ends within one request more than there are rows, and the concatenated pages are exactly
  the rows of the unpaginated query in its order. That order is strictly descending in
  \<open>(created_at, id)\<close>, so no row occurs twice, and it holds exactly the tenant's rows that
  pass the filter. A page requested with a cursor consists of the first \<open>limit\<close> rows, in that
  order, of those strictly below the cursor tuple.
\<close>

theorem cursor_pagination_complete:
  assumes dist: "distinct (map s_id tbl)"
    and lim: "1 \<le> limit" "limit \<le> 100"
    and codec: "\<forall>r\<in>set tbl. decode_cursor cdc (encode_cursor cdc (row_key r)) = Inr (row_key r)
                  \<and> encode_cursor cdc (row_key r) \<noteq> []"
  shows "list_all_pages (Suc (length tbl)) cdc tbl tenant_id None limit is_active
           = Some (Inr (unpaginated tbl tenant_id is_active))
       \<and> sorted_wrt (\<lambda>a b. row_key b < row_key a) (unpaginated tbl tenant_id is_active)
       \<and> distinct (unpaginated tbl tenant_id is_active)
       \<and> set (unpaginated tbl tenant_id is_active)
           = {r \<in> set tbl. tenant_condition tenant_id is_active r}
       \<and> (\<forall>c a b page nxt.
            c \<noteq> [] \<and> decode_cursor cdc c = Inr (a, b) \<and>
            find_by_tenant_id cdc tbl tenant_id (Some c) limit is_active = Inr (page, nxt) \<longrightarrow>
            page = take (nat limit)
                     (filter (\<lambda>r. cursor_condition a b r) (unpaginated tbl tenant_id is_active)))"
proof (intro conjI allI impI)
  let ?L = "unpaginated tbl tenant_id is_active"
  have "length ?L \<le> length tbl"
    by (simp add: unpaginated_def order_by_desc_def)
  then have "length ?L - 0 < Suc (length tbl)" by simp
  from pages_from [OF dist lim codec this, of None] 
  show "list_all_pages (Suc (length tbl)) cdc tbl tenant_id None limit is_active = Some (Inr ?L)"
    by simp
  show "sorted_wrt (\<lambda>a b. row_key b < row_key a) ?L"
    using dist by (rule unpaginated_strict)
  have "distinct tbl" using dist by (simp add: distinct_map)
  then show "distinct ?L"
    by (simp add: unpaginated_def order_by_desc_def)
  show "set ?L = {r \<in> set tbl. tenant_condition tenant_id is_active r}"
    by (rule set_unpaginated)
next
  fix c a b page nxt
  let ?Q = "filter (\<lambda>r. cursor_condition a b r) (unpaginated tbl tenant_id is_active)"
  assume h: "c \<noteq> [] \<and> decode_cursor cdc c = Inr (a, b) \<and>
            find_by_tenant_id cdc tbl tenant_id (Some c) limit is_active = Inr (page, nxt)"
  have q: "order_by_desc (filter (\<lambda>r. tenant_condition tenant_id is_active r \<and>
              cursor_condition a b r) tbl) = ?Q"
    by (simp add: query_after_cursor row_key_less_iff)
  have "find_by_tenant_id cdc tbl tenant_id (Some c) limit is_active =
           (if nat limit < length ?Q
            then Inr (take (nat limit) ?Q, Some (encode_cursor cdc (row_key (?Q ! (nat limit - 1)))))
            else Inr (?Q, None))"
    by (rule page_step [OF lim q]) (use h in \<open>simp add: cursor_conditions_def\<close>)
  with h show "page = take (nat limit) ?Q"
    by (auto split: if_splits)
qed

theorem cursor_pagination_complete_witness:
  "distinct (map s_id sample_table) \<and> (1::int) \<le> 2 \<and> (2::int) \<le> 100 \<and>
   list_all_pages 5 sample_cursor_codec sample_table ''t1'' None 2 None
     = Some (Inr [sample_row ''s3'' ''t1'' 20, sample_row ''s2'' ''t1'' 20,
                  sample_row ''s1'' ''t1'' 10]) \<and>
   find_by_tenant_id sample_cursor_codec sample_table ''t1'' (Some ''s2'') 2 None
     = Inr ([sample_row ''s1'' ''t1'' 10], None) \<and>
   take 2 (filter (cursor_condition 20 ''s2'') (unpaginated sample_table ''t1'' None))
     = [sample_row ''s1'' ''t1'' 10]"
proof -
  have dist: "distinct (map s_id sample_table)"
    by (simp add: sample_table_def sample_row_def)
  have codec: "\<forall>r\<in>set sample_table.
      decode_cursor sample_cursor_codec (encode_cursor sample_cursor_codec (row_key r)) = Inr (row_key r)
      \<and> encode_cursor sample_cursor_codec (row_key r) \<noteq> []"
    by (simp add: sample_table_def sample_row_def sample_cursor_codec_def row_key_def now_utc_def)
  have len: "Suc (length sample_table) = 5"
    by (simp add: sample_table_def)
  have unp: "unpaginated sample_table ''t1'' None
      = [sample_row ''s3'' ''t1'' 20, sample_row ''s2'' ''t1'' 20, sample_row ''s1'' ''t1'' 10]"
    by (simp add: unpaginated_def sample_table_def sample_row_def order_by_desc_def tenant_condition_def
        row_key_def sample_schedule_def now_utc_def)
  from cursor_pagination_complete [OF dist _ _ codec, of 2 "''t1''" None]
  have "list_all_pages (Suc (length sample_table)) sample_cursor_codec sample_table ''t1'' None 2 None
          = Some (Inr (unpaginated sample_table ''t1'' None))"
    by simp
  then have pages: "list_all_pages 5 sample_cursor_codec sample_table ''t1'' None 2 None
     = Some (Inr [sample_row ''s3'' ''t1'' 20, sample_row ''s2'' ''t1'' 20,
                  sample_row ''s1'' ''t1'' 10])"
    using len unp by simp
  have dec: "''s2'' \<noteq> [] \<and> decode_cursor sample_cursor_codec ''s2'' = Inr (20, ''s2'')"
    by (simp add: sample_cursor_codec_def)
  have page: "find_by_tenant_id sample_cursor_codec sample_table ''t1'' (Some ''s2'') 2 None
     = Inr ([sample_row ''s1'' ''t1'' 10], None)"
    by (simp add: find_by_tenant_id_def cursor_conditions_def sample_table_def sample_row_def
        order_by_desc_def tenant_condition_def row_key_def sample_schedule_def now_utc_def
        py_slice_to_def sample_cursor_codec_def cursor_condition_def Let_def)
  from cursor_pagination_complete [OF dist _ _ codec, of 2 "''t1''" None]
  have "\<forall>c a b page nxt.
            c \<noteq> [] \<and> decode_cursor sample_cursor_codec c = Inr (a, b) \<and>
            find_by_tenant_id sample_cursor_codec sample_table ''t1'' (Some c) 2 None
              = Inr (page, nxt) \<longrightarrow>
            page = take (nat 2)
                     (filter (\<lambda>r. cursor_condition a b r) (unpaginated sample_table ''t1'' None))"
    by simp
  with dec page
  have "[sample_row ''s1'' ''t1'' 10]
          = take (nat 2) (filter (\<lambda>r. cursor_condition 20 ''s2'' r)
                            (unpaginated sample_table ''t1'' None))"
    by blast
  then have below: "take 2 (filter (cursor_condition 20 ''s2'') (unpaginated sample_table ''t1'' None))
          = [sample_row ''s1'' ''t1'' 10]"
    by simp
  from dist pages page below show ?thesis
    by simp
qed

section \<open>Claims about the execution pipeline\<close>

lemma update_run_last:
  "\<forall>x\<in>set rows. er_id x \<noteq> er_id r \<Longrightarrow> er_id r' = er_id r \<Longrightarrow>
   update_run (rows @ [r]) r' = rows @ [r'\<lparr>er_execution_metadata := er_execution_metadata r\<rparr>]"
  by (auto simp add: update_run_def intro!: map_idI)

lemma keys_free_nil: "keys_free stored []"
  by (simp add: keys_free_def)

lemma generate_report_async_database:
  "\<exists>rs. fst (generate_report_async env db tenant_id schedule_id report_definition_id cfg)
                = db\<lparr>runs := runs db @ rs\<rparr>
             \<and> length rs \<le> 1
             \<and> (\<forall>r\<in>set rs. er_id r = new_run_id env tenant_id
                   \<and> (er_status r = ''running'' \<or> er_status r = ''failed''))"
proof (cases "pe_commit_run env = None \<and> new_run_id env tenant_id \<notin> set (map er_id (runs db))")
  case False
  then have "fst (generate_report_async env db tenant_id schedule_id report_definition_id cfg) = db"
    by (auto simp add: generate_report_async_def add_run_and_commit_def failure_handler_def Let_def
        split: option.splits)
  then have "fst (generate_report_async env db tenant_id schedule_id report_definition_id cfg)
                = db\<lparr>runs := runs db @ []\<rparr>"
    by simp
  then show ?thesis by fastforce
next
  case True
  then have fresh: "\<forall>x\<in>set (runs db). er_id x \<noteq> new_run_id env tenant_id"
    by (auto simp add: image_iff)
  show ?thesis
  proof (cases "pe_commit_failed env")
    case (Some e)
    show ?thesis
      apply (rule exI [where x = "[hd (drop (length (runs db)) (runs (fst (generate_report_async env db tenant_id schedule_id report_definition_id cfg))))]"])
      using True Some fresh
      by (simp add: generate_report_async_def add_run_and_commit_def session_commit_def
          rollback_def failure_handler_def Let_def
          session_get_run_def report_def_execution_metadata_def
          split: option.splits)
  next
    case n2: None
    show ?thesis
      apply (rule exI [where x = "[hd (drop (length (runs db)) (runs (fst (generate_report_async env db tenant_id schedule_id report_definition_id cfg))))]"])
      using True n2 fresh
      by (simp add: generate_report_async_def add_run_and_commit_def session_commit_def flush_def
          failure_handler_def Let_def keys_free_nil
          session_get_run_def report_def_execution_metadata_def update_run_last
          split: option.splits)
  qed
qed


lemma generate_report_async_duplicate_id:
  assumes "new_run_id env tenant_id \<in> set (map er_id (runs db))"
  shows "fst (generate_report_async env db tenant_id schedule_id report_definition_id cfg) = db"
  using assms
  by (auto simp add: generate_report_async_def add_run_and_commit_def failure_handler_def Let_def
      split: option.splits)

lemma generate_report_async_never_completes:
  "artifacts (fst (generate_report_async env db tenant_id schedule_id report_definition_id cfg))
     = artifacts db
   \<and> filter (\<lambda>r. er_status r = ''completed'')
        (runs (fst (generate_report_async env db tenant_id schedule_id report_definition_id cfg)))
     = filter (\<lambda>r. er_status r = ''completed'') (runs db)
   \<and> (\<forall>res. snd (generate_report_async env db tenant_id schedule_id report_definition_id cfg)
               = Inr res \<longrightarrow> pr_status res = ''failed'')"
proof -
  from generate_report_async_database [of env db tenant_id schedule_id report_definition_id cfg]
  obtain rs where db': "fst (generate_report_async env db tenant_id schedule_id
                               report_definition_id cfg) = db\<lparr>runs := runs db @ rs\<rparr>"
    and rs: "\<forall>r\<in>set rs. er_id r = new_run_id env tenant_id
                \<and> (er_status r = ''running'' \<or> er_status r = ''failed'')"
    by blast
  from rs have none: "filter (\<lambda>r. er_status r = ''completed'') rs = []"
    by (auto simp add: filter_empty_conv)
  have res: "\<forall>res. snd (generate_report_async env db tenant_id schedule_id report_definition_id
                            cfg) = Inr res \<longrightarrow> pr_status res = ''failed''"
    by (auto simp add: generate_report_async_def failure_handler_def Let_def
        report_def_execution_metadata_def split_beta
        split: option.splits sum.splits if_splits)
  show ?thesis
    unfolding db' using none res by simp
qed

lemma steps_with_handler_failed_delivery:
  assumes no_cache: "ttl_enabled cache_ttl = Inr False"
    and render: "pe_render env = Inr html"
    and pdf: "pe_pdf env = Inr pdf_bytes"
    and blob: "pe_blob_init env = None" "pe_upload env = None"
    and sas: "pe_sas env = Inr (url, expires)"
    and rcpt: "recipients email_cfg \<noteq> []"
    and client: "EmailService_init env = Inl e"
    and commit: "pe_commit_failed env = None"
    and row: "er_id run \<in> set (map er_id (runs (committed sess)))"
    and pend: "pending_artifacts sess = []" "pending_receipts sess = []"
    and free: "''artifact_'' @ er_id run \<notin> set (map a_id (artifacts (committed sess)))"
              "er_id run \<notin> set (map a_execution_run_id (artifacts (committed sess)))"
  shows "length (artifacts_of_run
                   (fst (steps_with_handler env tenant_id (Some email_cfg) report_def cache_ttl
                           sess run)) (er_id run)) = 1
       \<and> (\<forall>x \<in> set (runs (fst (steps_with_handler env tenant_id (Some email_cfg) report_def
                                   cache_ttl sess run))).
             er_id x = er_id run \<longrightarrow> er_status x = ''failed'')
       \<and> er_id run \<in> set (map er_id (runs (fst (steps_with_handler env tenant_id (Some email_cfg)
                                                  report_def cache_ttl sess run))))"
proof -
  let ?art = "\<lparr>a_id = ''artifact_'' @ er_id run,
               a_tenant_id = tenant_id,
               a_execution_run_id = er_id run,
               a_blob_path = tenant_id @ ''/'' @ er_id run @ ''/report_'' @ er_id run
                                    @ ''.'' @ rd_output_format report_def,
               a_file_size_bytes = length pdf_bytes,
               a_file_format = rd_output_format report_def,
               a_signed_url = Some url,
               a_signed_url_expires_at = Some expires,
               a_created_at = now_utc (pe_artifact_clock env)\<rparr>"
  have block: "run_after_lookup env tenant_id (Some email_cfg) report_def cache_ttl sess run
                 = (sess\<lparr>tracked_run := Some run, pending_artifacts := [?art]\<rparr>, Inl e)"
    using no_cache render pdf blob sas rcpt client pend
    by (simp add: run_after_lookup_def send_report_email_step_def Let_def)
  let ?failed = "run\<lparr>er_status := ''failed'',
                      er_completed_at := Some (now_utc (pe_failed_clock env)),
                      er_duration_seconds :=
                        Some (total_seconds_int (now_utc (pe_failed_clock env))
                                (now_utc (pe_started_clock env))),
                      er_error_message := Some (take 1000 (exc_str e))\<rparr>"
  have handled: "fst (steps_with_handler env tenant_id (Some email_cfg) report_def cache_ttl
                        sess run)
                 = (committed sess)
                       \<lparr>runs := update_run (runs (committed sess)) ?failed,
                        artifacts := artifacts (committed sess) @ [?art],
                        receipts := receipts (committed sess)\<rparr>"
    using commit row pend free
    by (simp add: steps_with_handler_def block failure_handler_def session_get_run_def
        session_commit_def flush_def keys_free_def Let_def)
  have arts: "artifacts_of_run (committed sess) (er_id run) = []"
    using free(2) by (auto simp add: artifacts_of_run_def filter_empty_conv image_iff)
  show ?thesis
    unfolding handled using arts row
    by (auto simp add: artifacts_of_run_def update_run_def)
qed


lemma send_report_email_result:
  "fst (send_report_email env client rs subj c b)
     = (transport_ok env client,
        if transport_ok env client then projr (pe_begin_send env) else transport_error env client)"
  by (simp add: send_report_email_def transport_ok_def transport_error_def Let_def
      split: sum.splits)

lemma send_report_email_sent:
  "length (snd (send_report_email env client rs subj c b)) \<le> 1
   \<and> (\<forall>m\<in>set (snd (send_report_email env client rs subj c b)). em_to m = rs)"
  by (simp add: send_report_email_def Let_def split: sum.splits)

text \<open>
  C4. Claimed: in the delivery step the send operation is invoked once for each recipient,
  one receipt per recipient is inserted with status \<open>sent\<close> or \<open>failed\<close>, and a failed
  delivery does not make the run end as \<open>failed\<close>. The step calls \<open>send_report_email\<close> once
  with the whole list: for two recipients there is one call and one message handed to the
  transport, not two.
\<close>

theorem delivery_sends_once_counterexample:
  "step_calls (send_report_email_step sample_env sample_session ''tenant-123'' sample_artifact
                 ''Sales'' two_recipients) = [[''a@x.com'', ''b@x.com'']] \<and>
   length (step_sent (send_report_email_step sample_env sample_session ''tenant-123''
                        sample_artifact ''Sales'' two_recipients)) = 1 \<and>
   length (recipients two_recipients) = 2"
  by (simp add: step_calls_def step_sent_def send_report_email_step_def send_report_email_def
      EmailService_init_def sample_env_def two_recipients_def Let_def)

text \<open>
  C4, as amended: when the e-mail service can be constructed, the delivery step calls
  \<open>send_report_email\<close> exactly once, with the whole recipient list, and at most one message,
  addressed to that list, reaches the transport. It then adds one receipt per entry of the
  list, in order, all with the same status: \<open>sent\<close> without error text when the transport
  accepted the message, \<open>failed\<close> with the error text otherwise (a missing client
  configuration counts as a failure). The step returns normally in both cases and leaves
  the committed database, the tracked run and the pending artifact untouched, so a failed
  delivery is not an exception of the task.
\<close>

theorem delivery_step_single_send:
  assumes init: "EmailService_init env = Inr client"
  shows "step_calls (send_report_email_step env sess tenant_id art report_name cfg)
           = [recipients cfg]
       \<and> length (step_sent (send_report_email_step env sess tenant_id art report_name cfg)) \<le> 1
       \<and> (\<forall>m\<in>set (step_sent (send_report_email_step env sess tenant_id art report_name cfg)).
             em_to m = recipients cfg)
       \<and> (\<exists>sess' new.
             step_session (send_report_email_step env sess tenant_id art report_name cfg)
               = Some sess'
           \<and> committed sess' = committed sess
           \<and> tracked_run sess' = tracked_run sess
           \<and> pending_artifacts sess' = pending_artifacts sess
           \<and> pending_receipts sess' = pending_receipts sess @ new
           \<and> map dr_recipient new = recipients cfg
           \<and> (\<forall>d\<in>set new.
                 dr_artifact_id d = a_id art \<and> dr_channel d = ''email''
               \<and> dr_status d = (if transport_ok env client then ''sent'' else ''failed'')
               \<and> dr_error_message d
                   = (if transport_ok env client then None
                      else Some (transport_error env client))))"
proof -
  let ?subj = "case subject cfg of Some t \<Rightarrow> t | None \<Rightarrow> ''Report: '' @ report_name"
  let ?call = "send_report_email env client (recipients cfg) ?subj (cc cfg) (bcc cfg)"
  obtain success info sent where call: "?call = ((success, info), sent)"
    by (metis prod.exhaust)
  from send_report_email_result [of env client "recipients cfg" ?subj "cc cfg" "bcc cfg"] call
  have succ: "success = transport_ok env client"
    and info: "\<not> transport_ok env client \<Longrightarrow> info = transport_error env client"
    by simp_all
  from send_report_email_sent [of env client "recipients cfg" ?subj "cc cfg" "bcc cfg"] call
  have sent: "length sent \<le> 1" "\<forall>m\<in>set sent. em_to m = recipients cfg"
    by simp_all
  let ?new = "map (\<lambda>recipient.
                        \<lparr>dr_id = ''receipt_'' @ a_id art @ ''_'' @ take 20 recipient,
                         dr_tenant_id = tenant_id,
                         dr_artifact_id = a_id art,
                         dr_channel = ''email'',
                         dr_recipient = recipient,
                         dr_status = (if success then ''sent'' else ''failed''),
                         dr_sent_at = (if success then Some (now_utc (pe_receipt_clock env))
                                       else None),
                         dr_error_message = (if \<not> success then Some info else None),
                         dr_created_at = now_utc (pe_receipt_clock env)\<rparr>)
                     (recipients cfg)"
  have step: "send_report_email_step env sess tenant_id art report_name cfg
                = Inr (sess\<lparr>pending_receipts := pending_receipts sess @ ?new\<rparr>,
                       [recipients cfg], sent)"
    by (simp add: send_report_email_step_def init call Let_def)
  have new: "map dr_recipient ?new = recipients cfg"
    by (simp add: comp_def)
  have each: "\<forall>d\<in>set ?new.
                 dr_artifact_id d = a_id art \<and> dr_channel d = ''email''
               \<and> dr_status d = (if transport_ok env client then ''sent'' else ''failed'')
               \<and> dr_error_message d
                   = (if transport_ok env client then None
                      else Some (transport_error env client))"
    using succ info by auto
  show ?thesis
    unfolding step step_calls_def step_sent_def step_session_def
    using sent new each by (simp del: map_map)
qed

theorem delivery_step_single_send_witness:
  "EmailService_init failing_transport_env = Inr True \<and>
   step_calls (send_report_email_step failing_transport_env sample_session ''tenant-123''
                 sample_artifact ''Sales'' two_recipients) = [[''a@x.com'', ''b@x.com'']] \<and>
   map_option (map dr_status \<circ> pending_receipts)
      (step_session (send_report_email_step failing_transport_env sample_session ''tenant-123''
                       sample_artifact ''Sales'' two_recipients))
     = Some [''failed'', ''failed''] \<and>
   map_sum exc_str pr_status
      (snd (run_after_lookup failing_transport_env ''tenant-123'' (Some two_recipients)
              sample_definition None sample_session sample_run))
     = Inr ''completed''"
proof -
  have init: "EmailService_init failing_transport_env = Inr True"
    by (simp add: EmailService_init_def failing_transport_env_def sample_env_def)
  have calls: "step_calls (send_report_email_step failing_transport_env sample_session
                 ''tenant-123'' sample_artifact ''Sales'' two_recipients)
               = [[''a@x.com'', ''b@x.com'']]"
    using delivery_step_single_send [OF init, of sample_session "''tenant-123''" sample_artifact
             "''Sales''" two_recipients]
    by (simp add: two_recipients_def)
  have st: "map_option (map dr_status \<circ> pending_receipts)
      (step_session (send_report_email_step failing_transport_env sample_session ''tenant-123''
                       sample_artifact ''Sales'' two_recipients))
     = Some [''failed'', ''failed'']"
    by (simp add: step_session_def send_report_email_step_def send_report_email_def
        EmailService_init_def failing_transport_env_def sample_env_def two_recipients_def
        sample_session_def Let_def)
  have run: "map_sum exc_str pr_status
      (snd (run_after_lookup failing_transport_env ''tenant-123'' (Some two_recipients)
              sample_definition None sample_session sample_run))
     = Inr ''completed''"
    by (simp add: run_after_lookup_def ttl_enabled_def send_report_email_step_def
        send_report_email_def EmailService_init_def session_commit_def flush_def
        keys_free_def failing_transport_env_def sample_env_def two_recipients_def
        sample_session_def sample_db_def sample_run_def new_run_id_def Let_def)
  from init calls st run show ?thesis
    by simp
qed

end
